theory Spec2Isabelle
  imports Main "HOL-Library.Product_Lexorder" "HOL-Library.Sublist"
begin

section \<open>Option normalisation of recurrence rules (\<^verbatim>\<open>src/parseoptions.ts\<close>)\<close>

text \<open>
  The file embeds \<^verbatim>\<open>initializeOptions\<close> and \<^verbatim>\<open>parseOptions\<close>.
  JavaScript numbers are modelled as \<open>int\<close> (the option values are whole numbers), a
  \<^verbatim>\<open>Date\<close> as its time value (milliseconds since the epoch, what
  \<^verbatim>\<open>getTime()\<close> returns), \<^verbatim>\<open>null\<close> as the \<open>Null\<close>/\<open>None\<close> of each field's
  type, and a thrown \<^verbatim>\<open>Error\<close> as the left summand of the result. A property
  explicitly set to \<^verbatim>\<open>undefined\<close> is outside the model: every field holds a value
  of its declared type or \<^verbatim>\<open>null\<close>.
\<close>

subsection \<open>Values of the option fields\<close>

text \<open>A field of type \<^verbatim>\<open>number | number[] | null\<close>.\<close>

datatype num_or_arr = Null | Num int | Arr "int list"

text \<open>
  Modelled from the spec: the class \<^verbatim>\<open>Weekday\<close> (\<^verbatim>\<open>src/weekday.ts\<close> is missing), a
  weekday code (0 = Monday .. 6 = Sunday) with an optional ordinal \<^verbatim>\<open>n\<close>. The source
  reads its properties \<^verbatim>\<open>weekday\<close> and \<^verbatim>\<open>n\<close>.
\<close>

datatype Weekday = Weekday (weekday: int) (n_of: "int option")

text \<open>An element of a weekday constraint: a bare code or a \<^verbatim>\<open>Weekday\<close> object.\<close>

datatype ByWeekday = Code int | Wday Weekday

text \<open>The field \<^verbatim>\<open>byweekday\<close>: \<^verbatim>\<open>ByWeekday | ByWeekday[] | null\<close>.\<close>

datatype byweekday_val = BwNull | BwOne ByWeekday | BwArr "ByWeekday list"

text \<open>
  The working structure \<^verbatim>\<open>opts\<close>, every recognised key populated. \<open>bynweekday\<close>
  holds the pairs \<^verbatim>\<open>[weekday, n]\<close>.
\<close>

record Options =
  freq :: "int option"
  dtstart :: "int option"
  interval :: int
  wkst :: "ByWeekday option"
  count :: "int option"
  until :: "int option"
  tzid :: "string option"
  bysetpos :: num_or_arr
  bymonth :: num_or_arr
  bymonthday :: num_or_arr
  bynmonthday :: "int list option"
  byyearday :: num_or_arr
  byweekno :: num_or_arr
  byweekday :: byweekday_val
  bynweekday :: "(int \<times> int) list option"
  byhour :: num_or_arr
  byminute :: num_or_arr
  bysecond :: num_or_arr
  byeaster :: "int option"

text \<open>
  The argument of \<^verbatim>\<open>parseOptions\<close> is a sparse object. It is modelled as the list of
  its properties in \<^verbatim>\<open>Object.keys\<close> order: one constructor per field of
  \<^verbatim>\<open>Options\<close>, carrying the supplied value, and \<open>K_other\<close> for a property whose
  name is not a field of \<^verbatim>\<open>Options\<close> (its value is only copied, never read).
\<close>

datatype option_entry =
    K_freq "int option"
  | K_dtstart "int option"
  | K_interval int
  | K_wkst "ByWeekday option"
  | K_count "int option"
  | K_until "int option"
  | K_tzid "string option"
  | K_bysetpos num_or_arr
  | K_bymonth num_or_arr
  | K_bymonthday num_or_arr
  | K_bynmonthday "int list option"
  | K_byyearday num_or_arr
  | K_byweekno num_or_arr
  | K_byweekday byweekday_val
  | K_bynweekday "(int \<times> int) list option"
  | K_byhour num_or_arr
  | K_byminute num_or_arr
  | K_bysecond num_or_arr
  | K_byeaster "int option"
  | K_other string

fun key_of :: "option_entry \<Rightarrow> string" where
  "key_of (K_freq _) = ''freq''"
| "key_of (K_dtstart _) = ''dtstart''"
| "key_of (K_interval _) = ''interval''"
| "key_of (K_wkst _) = ''wkst''"
| "key_of (K_count _) = ''count''"
| "key_of (K_until _) = ''until''"
| "key_of (K_tzid _) = ''tzid''"
| "key_of (K_bysetpos _) = ''bysetpos''"
| "key_of (K_bymonth _) = ''bymonth''"
| "key_of (K_bymonthday _) = ''bymonthday''"
| "key_of (K_bynmonthday _) = ''bynmonthday''"
| "key_of (K_byyearday _) = ''byyearday''"
| "key_of (K_byweekno _) = ''byweekno''"
| "key_of (K_byweekday _) = ''byweekday''"
| "key_of (K_bynweekday _) = ''bynweekday''"
| "key_of (K_byhour _) = ''byhour''"
| "key_of (K_byminute _) = ''byminute''"
| "key_of (K_bysecond _) = ''bysecond''"
| "key_of (K_byeaster _) = ''byeaster''"
| "key_of (K_other k) = k"

text \<open>\<^verbatim>\<open>Object.keys(options)\<close>.\<close>

definition keys :: "option_entry list \<Rightarrow> string list" where
  "keys options = map key_of options"

text \<open>\<^verbatim>\<open>new dateutil.Time(hour, minute, second, millisecond)\<close>.\<close>

record Time =
  hour :: int
  minute :: int
  second :: int
  millisecond :: int

text \<open>
  The errors thrown by the source, one constructor per \<^verbatim>\<open>throw\<close>: the message of
  the first, the offending value of the second. \<open>TypeError\<close> is the runtime error of
  reading \<^verbatim>\<open>.length\<close> of \<^verbatim>\<open>null\<close> in the timeset loops.
\<close>

datatype error =
    InvalidOptionKey string
  | InvalidFrequency "int option"
  | InvalidSetPosition string
  | TypeError

subsection \<open>Constants and helpers imported by the source\<close>

text \<open>
  Modelled from the spec: the frequency constants of \<^verbatim>\<open>RRule\<close> (\<^verbatim>\<open>src/rrule.ts\<close> is
  missing), an ordered enumeration YEARLY < MONTHLY < ... < SECONDLY used as an index
  into \<^verbatim>\<open>RRule.FREQUENCIES\<close>.
\<close>

definition YEARLY :: int where "YEARLY = 0"
definition MONTHLY :: int where "MONTHLY = 1"
definition WEEKLY :: int where "WEEKLY = 2"
definition DAILY :: int where "DAILY = 3"
definition HOURLY :: int where "HOURLY = 4"
definition MINUTELY :: int where "MINUTELY = 5"
definition SECONDLY :: int where "SECONDLY = 6"

definition FREQUENCIES :: "string list" where
  "FREQUENCIES =
     [''YEARLY'', ''MONTHLY'', ''WEEKLY'', ''DAILY'', ''HOURLY'', ''MINUTELY'', ''SECONDLY'']"

text \<open>
  \<^verbatim>\<open>RRule.FREQUENCIES[freq]\<close> read for its truth value: an index outside the array
  gives \<^verbatim>\<open>undefined\<close>, an empty string is falsy.
\<close>

definition FREQUENCIES_at :: "int \<Rightarrow> bool" where
  "FREQUENCIES_at f =
     (0 \<le> f \<and> f < int (length FREQUENCIES) \<and> FREQUENCIES ! nat f \<noteq> [])"

text \<open>Modelled from the spec: \<^verbatim>\<open>RRule.MO.weekday\<close>, Monday's code.\<close>

definition MO_weekday :: int where "MO_weekday = 0"

text \<open>
  Modelled from the spec: \<^verbatim>\<open>DEFAULT_OPTIONS\<close> and \<^verbatim>\<open>defaultKeys\<close> (\<^verbatim>\<open>src/rrule.ts\<close> is
  missing). Interval defaults to 1, week start to Monday, the start instant and every
  constraint field to \<^verbatim>\<open>null\<close>, the frequency to YEARLY. The recognised keys are
  the fields of \<^verbatim>\<open>Options\<close>.
\<close>

definition DEFAULT_OPTIONS :: Options where
  "DEFAULT_OPTIONS =
     \<lparr> freq = Some YEARLY, dtstart = None, interval = 1, wkst = Some (Code MO_weekday),
       count = None, until = None, tzid = None, bysetpos = Null, bymonth = Null,
       bymonthday = Null, bynmonthday = None, byyearday = Null, byweekno = Null,
       byweekday = BwNull, bynweekday = None, byhour = Null, byminute = Null,
       bysecond = Null, byeaster = None \<rparr>"

definition defaultKeys :: "string list" where
  "defaultKeys =
     [''freq'', ''dtstart'', ''interval'', ''wkst'', ''count'', ''until'', ''tzid'',
      ''bysetpos'', ''bymonth'', ''bymonthday'', ''bynmonthday'', ''byyearday'',
      ''byweekno'', ''byweekday'', ''bynweekday'', ''byhour'', ''byminute'',
      ''bysecond'', ''byeaster'']"

text \<open>
  Modelled from the spec: the helpers of \<^verbatim>\<open>src/helpers.ts\<close> (missing).
  \<^verbatim>\<open>contains\<close> is list membership, and \<^verbatim>\<open>notEmpty\<close> holds of a value that
  is present and is not an empty list. The shape tests \<^verbatim>\<open>isPresent\<close> (not
  \<^verbatim>\<open>null\<close>), \<^verbatim>\<open>isNumber\<close>, \<^verbatim>\<open>isArray\<close> and \<^verbatim>\<open>instanceof Weekday\<close> are
  case distinctions on the constructors of the value: \<open>Num\<close> and \<open>Code\<close> are the
  numbers, \<open>Arr\<close> and \<open>BwArr\<close> the arrays, \<open>Wday\<close> the \<^verbatim>\<open>Weekday\<close> objects.
\<close>

definition contains :: "'a list \<Rightarrow> 'a \<Rightarrow> bool" where
  "contains arr val = (val \<in> set arr)"

fun notEmpty :: "num_or_arr \<Rightarrow> bool" where
  "notEmpty Null = False"
| "notEmpty (Num _) = True"
| "notEmpty (Arr xs) = (xs \<noteq> [])"

text \<open>
  JavaScript's \<^verbatim>\<open>Boolean(v)\<close> (and the truthiness read by \<^verbatim>\<open>!v\<close>): \<^verbatim>\<open>null\<close>
  and the number 0 are falsy, every array is truthy, the empty one too.
\<close>

fun Boolean :: "num_or_arr \<Rightarrow> bool" where
  "Boolean Null = False"
| "Boolean (Num v) = (v \<noteq> 0)"
| "Boolean (Arr _) = True"

text \<open>
  The relational operators convert \<^verbatim>\<open>null\<close> to 0; after the frequency check the
  frequency is always a number.
\<close>

fun ToNumber :: "int option \<Rightarrow> int" where
  "ToNumber None = 0"
| "ToNumber (Some v) = v"

text \<open>
  JavaScript's \<^verbatim>\<open>%\<close> truncates towards zero: the result has the sign of the
  dividend.
\<close>

definition js_rem :: "int \<Rightarrow> int \<Rightarrow> int" where
  "js_rem a b = sgn a * (\<bar>a\<bar> mod \<bar>b\<bar>)"

subsection \<open>Dates\<close>

text \<open>
  The UTC getters of \<^verbatim>\<open>Date\<close>, on the time value \<open>t\<close> in milliseconds. Division
  and \<open>mod\<close> on \<open>int\<close> round down, which is what the getters do before 1970. The
  civil date is computed from the day number by the usual era arithmetic of the
  proleptic Gregorian calendar.
\<close>

definition getUTCMilliseconds :: "int \<Rightarrow> int" where
  "getUTCMilliseconds t = t mod 1000"

definition getUTCSeconds :: "int \<Rightarrow> int" where
  "getUTCSeconds t = (t div 1000) mod 60"

definition getUTCMinutes :: "int \<Rightarrow> int" where
  "getUTCMinutes t = (t div 60000) mod 60"

definition getUTCHours :: "int \<Rightarrow> int" where
  "getUTCHours t = (t div 3600000) mod 24"

definition getUTCDay :: "int \<Rightarrow> int" where
  "getUTCDay t = (t div 86400000 + 4) mod 7"

definition day_of_era :: "int \<Rightarrow> int" where
  "day_of_era t = (t div 86400000 + 719468) mod 146097"

definition year_of_era :: "int \<Rightarrow> int" where
  "year_of_era t =
     (let doe = day_of_era t
      in (doe - doe div 1460 + doe div 36524 - doe div 146096) div 365)"

definition day_of_year :: "int \<Rightarrow> int" where
  "day_of_year t =
     (let yoe = year_of_era t
      in day_of_era t - (365 * yoe + yoe div 4 - yoe div 100))"

definition getUTCMonth :: "int \<Rightarrow> int" where
  "getUTCMonth t =
     (let mp = (5 * day_of_year t + 2) div 153
      in (if mp < 10 then mp + 3 else mp - 9) - 1)"

definition getUTCDate :: "int \<Rightarrow> int" where
  "getUTCDate t =
     (let doy = day_of_year t; mp = (5 * doy + 2) div 153
      in doy - (153 * mp + 2) div 5 + 1)"

text \<open>
  Modelled from the spec: \<^verbatim>\<open>dateutil.getWeekday\<close> (\<^verbatim>\<open>src/dateutil.ts\<close> is missing),
  the weekday code of an instant with 0 = Monday .. 6 = Sunday.
\<close>

definition getWeekday :: "int \<Rightarrow> int" where
  "getWeekday t = (getUTCDay t + 6) mod 7"

text \<open>
  Modelled from the spec: \<^verbatim>\<open>dateutil.sort\<close> (\<^verbatim>\<open>src/dateutil.ts\<close> is missing), which
  sorts the list ascending by (hour, minute, second, millisecond).
\<close>

definition time_key :: "Time \<Rightarrow> int \<times> int \<times> int \<times> int" where
  "time_key t = (hour t, minute t, second t, millisecond t)"

definition dateutil_sort :: "Time list \<Rightarrow> Time list" where
  "dateutil_sort ts = sort_key time_key ts"

subsection \<open>\<^verbatim>\<open>initializeOptions\<close>\<close>

text \<open>
  The \<^verbatim>\<open>forEach\<close> copies every property and collects the keys that are not in
  \<^verbatim>\<open>defaultKeys\<close>; the accumulator is the pair (\<^verbatim>\<open>initializedOptions\<close>,
  \<^verbatim>\<open>invalid\<close>).
\<close>

fun initialize_loop ::
  "option_entry list \<Rightarrow> option_entry list \<times> string list \<Rightarrow> option_entry list \<times> string list"
where
  "initialize_loop [] acc = acc"
| "initialize_loop (e # es) (initializedOptions, invalid) =
     initialize_loop es
       (initializedOptions @ [e],
        if \<not> contains defaultKeys (key_of e) then invalid @ [key_of e] else invalid)"

text \<open>\<^verbatim>\<open>Array.prototype.join\<close>.\<close>

fun join :: "string \<Rightarrow> string list \<Rightarrow> string" where
  "join sep [] = []"
| "join sep [x] = x"
| "join sep (x # y # ys) = x @ sep @ join sep (y # ys)"

definition initializeOptions :: "option_entry list \<Rightarrow> error + option_entry list" where
  "initializeOptions options =
     (case initialize_loop options ([], []) of
        (initializedOptions, invalid) \<Rightarrow>
          if invalid \<noteq> []
          then Inl (InvalidOptionKey (''Invalid options: '' @ join '', '' invalid))
          else Inr initializedOptions)"

subsection \<open>The stages of \<^verbatim>\<open>parseOptions\<close>\<close>

text \<open>
  Merging the defaults: a key of \<^verbatim>\<open>defaultKeys\<close> that the input does not have takes
  its value from \<^verbatim>\<open>DEFAULT_OPTIONS\<close>, every other key keeps the copied value. On
  the record this is the defaults overwritten by each supplied property in turn.
\<close>

fun assign :: "option_entry \<Rightarrow> Options \<Rightarrow> Options" where
  "assign (K_freq v) opts = opts\<lparr>freq := v\<rparr>"
| "assign (K_dtstart v) opts = opts\<lparr>dtstart := v\<rparr>"
| "assign (K_interval v) opts = opts\<lparr>interval := v\<rparr>"
| "assign (K_wkst v) opts = opts\<lparr>wkst := v\<rparr>"
| "assign (K_count v) opts = opts\<lparr>count := v\<rparr>"
| "assign (K_until v) opts = opts\<lparr>until := v\<rparr>"
| "assign (K_tzid v) opts = opts\<lparr>tzid := v\<rparr>"
| "assign (K_bysetpos v) opts = opts\<lparr>bysetpos := v\<rparr>"
| "assign (K_bymonth v) opts = opts\<lparr>bymonth := v\<rparr>"
| "assign (K_bymonthday v) opts = opts\<lparr>bymonthday := v\<rparr>"
| "assign (K_bynmonthday v) opts = opts\<lparr>bynmonthday := v\<rparr>"
| "assign (K_byyearday v) opts = opts\<lparr>byyearday := v\<rparr>"
| "assign (K_byweekno v) opts = opts\<lparr>byweekno := v\<rparr>"
| "assign (K_byweekday v) opts = opts\<lparr>byweekday := v\<rparr>"
| "assign (K_bynweekday v) opts = opts\<lparr>bynweekday := v\<rparr>"
| "assign (K_byhour v) opts = opts\<lparr>byhour := v\<rparr>"
| "assign (K_byminute v) opts = opts\<lparr>byminute := v\<rparr>"
| "assign (K_bysecond v) opts = opts\<lparr>bysecond := v\<rparr>"
| "assign (K_byeaster v) opts = opts\<lparr>byeaster := v\<rparr>"
| "assign (K_other _) opts = opts"

definition merge_defaults :: "option_entry list \<Rightarrow> Options" where
  "merge_defaults initializedOptions = fold assign initializedOptions DEFAULT_OPTIONS"

text \<open>Lines 34 to 38: the Easter override, then the frequency check.\<close>

definition easter_stage :: "Options \<Rightarrow> Options" where
  "easter_stage opts =
     (if byeaster opts \<noteq> None then opts\<lparr>freq := Some YEARLY\<rparr> else opts)"

definition freq_ok :: "Options \<Rightarrow> bool" where
  "freq_ok opts = (case freq opts of None \<Rightarrow> False | Some f \<Rightarrow> FREQUENCIES_at f)"

text \<open>
  Line 40: a missing start instant becomes the clock reading \<open>now\<close> with its
  millisecond component set to 0.
\<close>

definition resolve_dtstart :: "int \<Rightarrow> Options \<Rightarrow> int" where
  "resolve_dtstart now opts =
     (case dtstart opts of None \<Rightarrow> now - now mod 1000 | Some d \<Rightarrow> d)"

text \<open>Line 42.\<close>

definition millisecondModulo :: "int \<Rightarrow> int" where
  "millisecondModulo dt = js_rem dt 1000"

text \<open>Lines 43 to 49.\<close>

definition wkst_stage :: "Options \<Rightarrow> Options" where
  "wkst_stage opts =
     (case wkst opts of
        None \<Rightarrow> opts\<lparr>wkst := Some (Code MO_weekday)\<rparr>
      | Some (Code _) \<Rightarrow> opts
      | Some (Wday w) \<Rightarrow> opts\<lparr>wkst := Some (Code (weekday w))\<rparr>)"

text \<open>Lines 51 to 62: the loop throws at the first offending element.\<close>

fun bysetpos_loop :: "int list \<Rightarrow> error option" where
  "bysetpos_loop [] = None"
| "bysetpos_loop (v # vs) =
     (if v = 0 \<or> \<not> (v \<ge> -366 \<and> v \<le> 366)
      then Some (InvalidSetPosition
                  ''bysetpos must be between 1 and 366, or between -366 and -1'')
      else bysetpos_loop vs)"

definition bysetpos_stage :: "Options \<Rightarrow> error + Options" where
  "bysetpos_stage opts =
     (case bysetpos opts of
        Null \<Rightarrow> Inr opts
      | Num v \<Rightarrow>
          (case bysetpos_loop [v] of
             Some e \<Rightarrow> Inl e
           | None \<Rightarrow> Inr (opts\<lparr>bysetpos := Arr [v]\<rparr>))
      | Arr vs \<Rightarrow>
          (case bysetpos_loop vs of Some e \<Rightarrow> Inl e | None \<Rightarrow> Inr opts))"

text \<open>Lines 64 to 87: the condition, then the \<^verbatim>\<open>switch\<close> on the frequency.\<close>

definition implicit_condition :: "Options \<Rightarrow> bool" where
  "implicit_condition opts =
     (\<not> (Boolean (byweekno opts) \<or>
         notEmpty (byweekno opts) \<or>
         notEmpty (byyearday opts) \<or>
         Boolean (bymonthday opts) \<or>
         notEmpty (bymonthday opts) \<or>
         byweekday opts \<noteq> BwNull \<or>
         byeaster opts \<noteq> None))"

definition implicit_stage :: "int \<Rightarrow> Options \<Rightarrow> Options" where
  "implicit_stage dt opts =
     (if implicit_condition opts then
        (if freq opts = Some YEARLY then
           (let opts = (if \<not> Boolean (bymonth opts)
                        then opts\<lparr>bymonth := Num (getUTCMonth dt + 1)\<rparr> else opts)
            in opts\<lparr>bymonthday := Num (getUTCDate dt)\<rparr>)
         else if freq opts = Some MONTHLY then opts\<lparr>bymonthday := Num (getUTCDate dt)\<rparr>
         else if freq opts = Some WEEKLY then opts\<lparr>byweekday := BwArr [Code (getWeekday dt)]\<rparr>
         else opts)
      else opts)"

text \<open>Lines 89 to 96 and 124 to 127: a scalar becomes a one-element list.\<close>

definition bymonth_stage :: "Options \<Rightarrow> Options" where
  "bymonth_stage opts =
     (case bymonth opts of Num v \<Rightarrow> opts\<lparr>bymonth := Arr [v]\<rparr> | _ \<Rightarrow> opts)"

definition byyearday_stage :: "Options \<Rightarrow> Options" where
  "byyearday_stage opts =
     (case byyearday opts of Num v \<Rightarrow> opts\<lparr>byyearday := Arr [v]\<rparr> | _ \<Rightarrow> opts)"

definition byweekno_stage :: "Options \<Rightarrow> Options" where
  "byweekno_stage opts =
     (case byweekno opts of Num v \<Rightarrow> opts\<lparr>byweekno := Arr [v]\<rparr> | _ \<Rightarrow> opts)"

text \<open>
  Lines 98 to 122. The accumulator of the loop is the pair of local arrays
  (\<^verbatim>\<open>bymonthday\<close>, \<^verbatim>\<open>bynmonthday\<close>).
\<close>

fun bymonthday_loop :: "int list \<Rightarrow> int list \<times> int list \<Rightarrow> int list \<times> int list" where
  "bymonthday_loop [] acc = acc"
| "bymonthday_loop (v # vs) (pos, neg) =
     bymonthday_loop vs
       (if v > 0 then (pos @ [v], neg)
        else if v < 0 then (pos, neg @ [v])
        else (pos, neg))"

definition bymonthday_stage :: "Options \<Rightarrow> Options" where
  "bymonthday_stage opts =
     (case bymonthday opts of
        Null \<Rightarrow> opts\<lparr>bymonthday := Arr [], bynmonthday := Some []\<rparr>
      | Arr vs \<Rightarrow>
          (case bymonthday_loop vs ([], []) of
             (pos, neg) \<Rightarrow> opts\<lparr>bymonthday := Arr pos, bynmonthday := Some neg\<rparr>)
      | Num v \<Rightarrow>
          if v < 0 then opts\<lparr>bynmonthday := Some [v], bymonthday := Arr []\<rparr>
          else opts\<lparr>bynmonthday := Some [], bymonthday := Arr [v]\<rparr>)"

text \<open>
  Lines 129 to 164. \<^verbatim>\<open>!wd.n\<close> holds when \<^verbatim>\<open>n\<close> is missing or 0. The accumulator of
  the loop is the pair of local arrays (\<^verbatim>\<open>byweekday\<close>, \<^verbatim>\<open>bynweekday\<close>); the
  results are \<^verbatim>\<open>null\<close> when empty.
\<close>

fun byweekday_loop ::
  "int option \<Rightarrow> ByWeekday list \<Rightarrow> int list \<times> (int \<times> int) list \<Rightarrow> int list \<times> (int \<times> int) list"
where
  "byweekday_loop f [] acc = acc"
| "byweekday_loop f (Code c # wdays) (bw, bnw) = byweekday_loop f wdays (bw @ [c], bnw)"
| "byweekday_loop f (Wday wd # wdays) (bw, bnw) =
     (case n_of wd of
        None \<Rightarrow> byweekday_loop f wdays (bw @ [weekday wd], bnw)
      | Some k \<Rightarrow>
          if k = 0 \<or> ToNumber f > MONTHLY
          then byweekday_loop f wdays (bw @ [weekday wd], bnw)
          else byweekday_loop f wdays (bw, bnw @ [(weekday wd, k)]))"

definition byweekday_stage :: "Options \<Rightarrow> Options" where
  "byweekday_stage opts =
     (case byweekday opts of
        BwNull \<Rightarrow> opts\<lparr>bynweekday := None\<rparr>
      | BwOne (Code c) \<Rightarrow> opts\<lparr>byweekday := BwArr [Code c], bynweekday := None\<rparr>
      | BwOne (Wday wd) \<Rightarrow>
          (case n_of wd of
             None \<Rightarrow> opts\<lparr>byweekday := BwArr [Code (weekday wd)], bynweekday := None\<rparr>
           | Some k \<Rightarrow>
               if k = 0 \<or> ToNumber (freq opts) > MONTHLY
               then opts\<lparr>byweekday := BwArr [Code (weekday wd)], bynweekday := None\<rparr>
               else opts\<lparr>bynweekday := Some [(weekday wd, k)], byweekday := BwNull\<rparr>)
      | BwArr wdays \<Rightarrow>
          (case byweekday_loop (freq opts) wdays ([], []) of
             (bw, bnw) \<Rightarrow>
               opts\<lparr>byweekday := (if bw \<noteq> [] then BwArr (map Code bw) else BwNull),
                    bynweekday := (if bnw \<noteq> [] then Some bnw else None)\<rparr>))"

text \<open>Lines 166 to 187.\<close>

definition byhour_stage :: "int \<Rightarrow> Options \<Rightarrow> Options" where
  "byhour_stage dt opts =
     (case byhour opts of
        Null \<Rightarrow>
          opts\<lparr>byhour := (if ToNumber (freq opts) < HOURLY then Arr [getUTCHours dt] else Null)\<rparr>
      | Num v \<Rightarrow> opts\<lparr>byhour := Arr [v]\<rparr>
      | Arr _ \<Rightarrow> opts)"

definition byminute_stage :: "int \<Rightarrow> Options \<Rightarrow> Options" where
  "byminute_stage dt opts =
     (case byminute opts of
        Null \<Rightarrow>
          opts\<lparr>byminute :=
                 (if ToNumber (freq opts) < MINUTELY then Arr [getUTCMinutes dt] else Null)\<rparr>
      | Num v \<Rightarrow> opts\<lparr>byminute := Arr [v]\<rparr>
      | Arr _ \<Rightarrow> opts)"

definition bysecond_stage :: "int \<Rightarrow> Options \<Rightarrow> Options" where
  "bysecond_stage dt opts =
     (case bysecond opts of
        Null \<Rightarrow>
          opts\<lparr>bysecond :=
                 (if ToNumber (freq opts) < SECONDLY then Arr [getUTCSeconds dt] else Null)\<rparr>
      | Num v \<Rightarrow> opts\<lparr>bysecond := Arr [v]\<rparr>
      | Arr _ \<Rightarrow> opts)"

text \<open>
  Lines 189 to 210. \<open>elements\<close> is what a \<^verbatim>\<open>for\<close> loop over \<^verbatim>\<open>v!.length\<close>
  visits: the elements of an array, nothing for a number (its \<^verbatim>\<open>length\<close> is
  \<^verbatim>\<open>undefined\<close>), and a \<^verbatim>\<open>TypeError\<close> for \<^verbatim>\<open>null\<close>. The inner lists are read
  only when the outer loop has an element, as in the source.
\<close>

fun elements :: "num_or_arr \<Rightarrow> error + int list" where
  "elements Null = Inl TypeError"
| "elements (Num _) = Inr []"
| "elements (Arr vs) = Inr vs"

fun second_loop :: "int \<Rightarrow> int \<Rightarrow> int \<Rightarrow> int list \<Rightarrow> Time list \<Rightarrow> Time list" where
  "second_loop mm h m [] timeset = timeset"
| "second_loop mm h m (s # ss) timeset =
     second_loop mm h m ss
       (timeset @ [\<lparr>hour = h, minute = m, second = s, millisecond = mm\<rparr>])"

fun minute_loop ::
  "int \<Rightarrow> num_or_arr \<Rightarrow> int \<Rightarrow> int list \<Rightarrow> Time list \<Rightarrow> error + Time list"
where
  "minute_loop mm bysec h [] timeset = Inr timeset"
| "minute_loop mm bysec h (m # ms) timeset =
     (case elements bysec of
        Inl e \<Rightarrow> Inl e
      | Inr ss \<Rightarrow> minute_loop mm bysec h ms (second_loop mm h m ss timeset))"

fun hour_loop ::
  "int \<Rightarrow> num_or_arr \<Rightarrow> num_or_arr \<Rightarrow> int list \<Rightarrow> Time list \<Rightarrow> error + Time list"
where
  "hour_loop mm bymin bysec [] timeset = Inr timeset"
| "hour_loop mm bymin bysec (h # hs) timeset =
     (case elements bymin of
        Inl e \<Rightarrow> Inl e
      | Inr ms \<Rightarrow>
          (case minute_loop mm bysec h ms timeset of
             Inl e \<Rightarrow> Inl e
           | Inr timeset' \<Rightarrow> hour_loop mm bymin bysec hs timeset'))"

definition build_timeset :: "int \<Rightarrow> Options \<Rightarrow> error + Time list option" where
  "build_timeset mm opts =
     (if ToNumber (freq opts) \<ge> HOURLY then Inr None
      else
        (case elements (byhour opts) of
           Inl e \<Rightarrow> Inl e
         | Inr hs \<Rightarrow>
             (case hour_loop mm (byminute opts) (bysecond opts) hs [] of
                Inl e \<Rightarrow> Inl e
              | Inr timeset \<Rightarrow> Inr (Some (dateutil_sort timeset)))))"

subsection \<open>\<^verbatim>\<open>parseOptions\<close>\<close>

text \<open>
  \<open>merged\<close> is \<^verbatim>\<open>opts\<close> after line 32, \<open>normalize_fields\<close> the field stages of
  lines 64 to 187 in the order of the source. The clock reading \<open>now\<close> is an
  argument: the source reads it with \<^verbatim>\<open>new Date()\<close>.
\<close>

definition merged :: "option_entry list \<Rightarrow> Options" where
  "merged options = merge_defaults options"

definition normalize_fields :: "int \<Rightarrow> Options \<Rightarrow> Options" where
  "normalize_fields dt opts =
     bysecond_stage dt (byminute_stage dt (byhour_stage dt (byweekday_stage
       (byweekno_stage (bymonthday_stage (byyearday_stage (bymonth_stage
         (implicit_stage dt opts))))))))"

definition parseOptions ::
  "int \<Rightarrow> option_entry list \<Rightarrow> error + (Options \<times> Time list option)"
where
  "parseOptions now options =
     (case initializeOptions options of
        Inl e \<Rightarrow> Inl e
      | Inr initializedOptions \<Rightarrow>
          (let opts = easter_stage (merge_defaults initializedOptions)
           in if \<not> freq_ok opts then Inl (InvalidFrequency (freq opts))
              else
                (let dt = resolve_dtstart now opts;
                     opts = opts\<lparr>dtstart := Some dt\<rparr>;
                     opts = wkst_stage opts
                 in case bysetpos_stage opts of
                      Inl e \<Rightarrow> Inl e
                    | Inr opts \<Rightarrow>
                        (let opts = normalize_fields dt opts
                         in case build_timeset (millisecondModulo dt) opts of
                              Inl e \<Rightarrow> Inl e
                            | Inr timeset \<Rightarrow> Inr (opts, timeset)))))"

subsection \<open>Notions used to state the properties\<close>

text \<open>
  The intermediate values of \<^verbatim>\<open>parseOptions\<close>, named so that statements can refer
  to them: \<open>resolved\<close> is \<^verbatim>\<open>opts\<close> after the Easter override of line 34,
  \<open>anchor\<close> the start instant after line 40, and \<open>validated\<close> is \<^verbatim>\<open>opts\<close> on
  entry to line 64 (after the set-position check has promoted a scalar).
\<close>

definition resolved :: "option_entry list \<Rightarrow> Options" where
  "resolved options = easter_stage (merged options)"

definition anchor :: "int \<Rightarrow> option_entry list \<Rightarrow> int" where
  "anchor now options = resolve_dtstart now (resolved options)"

definition promote :: "num_or_arr \<Rightarrow> num_or_arr" where
  "promote v = (case v of Num x \<Rightarrow> Arr [x] | _ \<Rightarrow> v)"

definition validated :: "int \<Rightarrow> option_entry list \<Rightarrow> Options" where
  "validated now options =
     (wkst_stage ((resolved options)\<lparr>dtstart := Some (anchor now options)\<rparr>))
       \<lparr>bysetpos := promote (bysetpos (resolved options))\<rparr>"

text \<open>The keys of the input that are not recognised, in input order.\<close>

definition invalid_keys :: "option_entry list \<Rightarrow> string list" where
  "invalid_keys options = filter (\<lambda>k. k \<notin> set defaultKeys) (keys options)"

text \<open>The seven members of the frequency enumeration.\<close>

definition frequency_member :: "int option \<Rightarrow> bool" where
  "frequency_member f =
     (f = Some YEARLY \<or> f = Some MONTHLY \<or> f = Some WEEKLY \<or> f = Some DAILY \<or>
      f = Some HOURLY \<or> f = Some MINUTELY \<or> f = Some SECONDLY)"

text \<open>
  The elements of a scalar-or-list value (a scalar counts as a one-element list,
  \<^verbatim>\<open>null\<close> as no element), and the legal set positions.
\<close>

definition list_of :: "num_or_arr \<Rightarrow> int list" where
  "list_of v = (case v of Null \<Rightarrow> [] | Num x \<Rightarrow> [x] | Arr xs \<Rightarrow> xs)"

definition setpos_ok :: "int \<Rightarrow> bool" where
  "setpos_ok v = (v \<noteq> 0 \<and> -366 \<le> v \<and> v \<le> 366)"

definition setpos_message :: string where
  "setpos_message = ''bysetpos must be between 1 and 366, or between -366 and -1''"

text \<open>
  The cross product of the hour, minute and second lists, hour outermost and second
  innermost, every entry with the millisecond value \<open>mm\<close>; and the timeset that the
  normalised options determine.
\<close>

definition cross_product :: "int \<Rightarrow> int list \<Rightarrow> int list \<Rightarrow> int list \<Rightarrow> Time list" where
  "cross_product mm hs ms ss =
     concat (map (\<lambda>h. concat (map (\<lambda>m.
       map (\<lambda>s. \<lparr>hour = h, minute = m, second = s, millisecond = mm\<rparr>) ss) ms)) hs)"

definition timeset_of :: "int \<Rightarrow> Options \<Rightarrow> Time list option" where
  "timeset_of mm opts =
     (if ToNumber (freq opts) \<ge> HOURLY then None
      else Some (dateutil_sort
             (cross_product mm (list_of (byhour opts)) (list_of (byminute opts))
                (list_of (bysecond opts)))))"

text \<open>
  The month-day and weekday constraints as they reach lines 98 and 129, that is after
  the implicit derivation of lines 64 to 87.
\<close>

definition monthday_constraint :: "int \<Rightarrow> option_entry list \<Rightarrow> num_or_arr" where
  "monthday_constraint now options =
     bymonthday (implicit_stage (anchor now options) (validated now options))"

definition weekday_constraint :: "int \<Rightarrow> option_entry list \<Rightarrow> byweekday_val" where
  "weekday_constraint now options =
     byweekday (implicit_stage (anchor now options) (validated now options))"

text \<open>
  Classification of weekday tokens. A \<^verbatim>\<open>Weekday\<close> has an ordinal when its \<^verbatim>\<open>n\<close> is
  a number other than 0 (the source tests \<^verbatim>\<open>!wd.n\<close>). A token goes to the plain
  bucket as its bare code, or to the ordinal bucket as the pair of its code and
  ordinal.
\<close>

definition has_ordinal :: "Weekday \<Rightarrow> bool" where
  "has_ordinal wd = (case n_of wd of None \<Rightarrow> False | Some k \<Rightarrow> k \<noteq> 0)"

definition finer_than_monthly :: "int option \<Rightarrow> bool" where
  "finer_than_monthly f =
     (f = Some WEEKLY \<or> f = Some DAILY \<or> f = Some HOURLY \<or> f = Some MINUTELY \<or>
      f = Some SECONDLY)"

fun weekday_code :: "ByWeekday \<Rightarrow> int" where
  "weekday_code (Code c) = c"
| "weekday_code (Wday wd) = weekday wd"

fun to_plain :: "int option \<Rightarrow> ByWeekday \<Rightarrow> bool" where
  "to_plain f (Code c) = True"
| "to_plain f (Wday wd) = (\<not> has_ordinal wd \<or> finer_than_monthly f)"

fun ordinal_pair :: "int option \<Rightarrow> ByWeekday \<Rightarrow> (int \<times> int) option" where
  "ordinal_pair f (Code c) = None"
| "ordinal_pair f (Wday wd) =
     (case n_of wd of
        None \<Rightarrow> None
      | Some k \<Rightarrow> if k \<noteq> 0 \<and> \<not> finer_than_monthly f then Some (weekday wd, k) else None)"

text \<open>A constraint value that is a number other than 0 or a list with an element.\<close>

definition constraint_given :: "num_or_arr \<Rightarrow> bool" where
  "constraint_given v = (case v of Null \<Rightarrow> False | Num k \<Rightarrow> k \<noteq> 0 | Arr xs \<Rightarrow> xs \<noteq> [])"

section \<open>Auxiliary facts\<close>

subsection \<open>The loops in closed form\<close>

lemma initialize_loop_eq:
  "initialize_loop es (initialized, invalid) =
     (initialized @ es, invalid @ filter (\<lambda>k. k \<notin> set defaultKeys) (map key_of es))"
  by (induction es arbitrary: initialized invalid) (simp_all add: contains_def)

lemma initializeOptions_eq:
  "initializeOptions options =
     (if invalid_keys options = [] then Inr options
      else Inl (InvalidOptionKey (''Invalid options: '' @ join '', '' (invalid_keys options))))"
  by (simp add: initializeOptions_def initialize_loop_eq invalid_keys_def keys_def)

lemma sublist_join: "k \<in> set ks \<Longrightarrow> sublist k (join sep ks)"
proof (induction sep ks rule: join.induct)
  case (1 sep)
  then show ?case by simp
next
  case (2 sep x)
  then show ?case by simp
next
  case (3 sep x y ys)
  show ?case
  proof (cases "k = x")
    case True
    then show ?thesis by (simp add: sublist_append_rightI)
  next
    case False
    with 3 have "sublist k (join sep (y # ys))" by simp
    then obtain ps ss where "join sep (y # ys) = ps @ k @ ss"
      by (auto simp: sublist_def)
    then have "join sep (x # y # ys) = (x @ sep @ ps) @ k @ ss" by simp
    then show ?thesis unfolding sublist_def by blast
  qed
qed

lemma bysetpos_loop_None:
  "bysetpos_loop vs = None \<longleftrightarrow> (\<forall>v\<in>set vs. v \<noteq> 0 \<and> -366 \<le> v \<and> v \<le> 366)"
  by (induction vs) auto

lemma bysetpos_loop_Some:
  "bysetpos_loop vs = Some e \<Longrightarrow>
     e = InvalidSetPosition ''bysetpos must be between 1 and 366, or between -366 and -1''"
  by (induction vs) (auto split: if_splits)

lemma second_loop_eq:
  "second_loop mm h m ss timeset =
     timeset @ map (\<lambda>s. \<lparr>hour = h, minute = m, second = s, millisecond = mm\<rparr>) ss"
  by (induction ss arbitrary: timeset) simp_all

lemma minute_loop_eq:
  "minute_loop mm (Arr ss) h ms timeset =
     Inr (timeset @ concat (map (\<lambda>m. map (\<lambda>s. \<lparr>hour = h, minute = m, second = s, millisecond = mm\<rparr>) ss) ms))"
  by (induction ms arbitrary: timeset) (simp_all add: second_loop_eq)

lemma hour_loop_eq:
  "hour_loop mm (Arr ms) (Arr ss) hs timeset =
     Inr (timeset @ concat (map (\<lambda>h. concat (map (\<lambda>m. map (\<lambda>s. \<lparr>hour = h, minute = m, second = s, millisecond = mm\<rparr>) ss) ms)) hs))"
  by (induction hs arbitrary: timeset) (simp_all add: minute_loop_eq)

lemma bymonthday_loop_eq:
  "bymonthday_loop vs (pos, neg) = (pos @ filter (\<lambda>v. 0 < v) vs, neg @ filter (\<lambda>v. v < 0) vs)"
  by (induction vs arbitrary: pos neg) simp_all

subsection \<open>Merging the defaults\<close>

text \<open>A recognised key that the input does not have holds its default.\<close>

lemma fold_assign_other:
  assumes "\<And>e r. key_of e \<noteq> k \<Longrightarrow> g (assign e r) = g r" "k \<notin> set (keys es)"
  shows "g (fold assign es r) = g r"
  using assms(2)
proof (induction es arbitrary: r)
  case Nil
  then show ?case by simp
next
  case (Cons e es)
  then have "key_of e \<noteq> k" "k \<notin> set (keys es)" by (auto simp: keys_def)
  then show ?case using Cons.IH assms(1) by simp
qed

lemma assign_other:
  "key_of e \<noteq> ''freq'' \<Longrightarrow> freq (assign e r) = freq r"
  "key_of e \<noteq> ''dtstart'' \<Longrightarrow> dtstart (assign e r) = dtstart r"
  "key_of e \<noteq> ''interval'' \<Longrightarrow> interval (assign e r) = interval r"
  "key_of e \<noteq> ''wkst'' \<Longrightarrow> wkst (assign e r) = wkst r"
  "key_of e \<noteq> ''count'' \<Longrightarrow> count (assign e r) = count r"
  "key_of e \<noteq> ''until'' \<Longrightarrow> until (assign e r) = until r"
  "key_of e \<noteq> ''tzid'' \<Longrightarrow> tzid (assign e r) = tzid r"
  "key_of e \<noteq> ''bysetpos'' \<Longrightarrow> bysetpos (assign e r) = bysetpos r"
  "key_of e \<noteq> ''bymonth'' \<Longrightarrow> bymonth (assign e r) = bymonth r"
  "key_of e \<noteq> ''bymonthday'' \<Longrightarrow> bymonthday (assign e r) = bymonthday r"
  "key_of e \<noteq> ''bynmonthday'' \<Longrightarrow> bynmonthday (assign e r) = bynmonthday r"
  "key_of e \<noteq> ''byyearday'' \<Longrightarrow> byyearday (assign e r) = byyearday r"
  "key_of e \<noteq> ''byweekno'' \<Longrightarrow> byweekno (assign e r) = byweekno r"
  "key_of e \<noteq> ''byweekday'' \<Longrightarrow> byweekday (assign e r) = byweekday r"
  "key_of e \<noteq> ''bynweekday'' \<Longrightarrow> bynweekday (assign e r) = bynweekday r"
  "key_of e \<noteq> ''byhour'' \<Longrightarrow> byhour (assign e r) = byhour r"
  "key_of e \<noteq> ''byminute'' \<Longrightarrow> byminute (assign e r) = byminute r"
  "key_of e \<noteq> ''bysecond'' \<Longrightarrow> bysecond (assign e r) = bysecond r"
  "key_of e \<noteq> ''byeaster'' \<Longrightarrow> byeaster (assign e r) = byeaster r"
  by (cases e; simp)+

lemma merged_absent:
  "''freq'' \<notin> set (keys options) \<Longrightarrow> freq (merged options) = freq DEFAULT_OPTIONS"
  "''dtstart'' \<notin> set (keys options) \<Longrightarrow> dtstart (merged options) = dtstart DEFAULT_OPTIONS"
  "''interval'' \<notin> set (keys options) \<Longrightarrow> interval (merged options) = interval DEFAULT_OPTIONS"
  "''wkst'' \<notin> set (keys options) \<Longrightarrow> wkst (merged options) = wkst DEFAULT_OPTIONS"
  "''count'' \<notin> set (keys options) \<Longrightarrow> count (merged options) = count DEFAULT_OPTIONS"
  "''until'' \<notin> set (keys options) \<Longrightarrow> until (merged options) = until DEFAULT_OPTIONS"
  "''tzid'' \<notin> set (keys options) \<Longrightarrow> tzid (merged options) = tzid DEFAULT_OPTIONS"
  "''bysetpos'' \<notin> set (keys options) \<Longrightarrow> bysetpos (merged options) = bysetpos DEFAULT_OPTIONS"
  "''bymonth'' \<notin> set (keys options) \<Longrightarrow> bymonth (merged options) = bymonth DEFAULT_OPTIONS"
  "''bymonthday'' \<notin> set (keys options) \<Longrightarrow> bymonthday (merged options) = bymonthday DEFAULT_OPTIONS"
  "''bynmonthday'' \<notin> set (keys options) \<Longrightarrow> bynmonthday (merged options) = bynmonthday DEFAULT_OPTIONS"
  "''byyearday'' \<notin> set (keys options) \<Longrightarrow> byyearday (merged options) = byyearday DEFAULT_OPTIONS"
  "''byweekno'' \<notin> set (keys options) \<Longrightarrow> byweekno (merged options) = byweekno DEFAULT_OPTIONS"
  "''byweekday'' \<notin> set (keys options) \<Longrightarrow> byweekday (merged options) = byweekday DEFAULT_OPTIONS"
  "''bynweekday'' \<notin> set (keys options) \<Longrightarrow> bynweekday (merged options) = bynweekday DEFAULT_OPTIONS"
  "''byhour'' \<notin> set (keys options) \<Longrightarrow> byhour (merged options) = byhour DEFAULT_OPTIONS"
  "''byminute'' \<notin> set (keys options) \<Longrightarrow> byminute (merged options) = byminute DEFAULT_OPTIONS"
  "''bysecond'' \<notin> set (keys options) \<Longrightarrow> bysecond (merged options) = bysecond DEFAULT_OPTIONS"
  "''byeaster'' \<notin> set (keys options) \<Longrightarrow> byeaster (merged options) = byeaster DEFAULT_OPTIONS"
  unfolding merged_def merge_defaults_def
  apply (rule fold_assign_other[where g = freq and k = "''freq''"], erule assign_other, assumption)
  apply (rule fold_assign_other[where g = dtstart and k = "''dtstart''"], erule assign_other, assumption)
  apply (rule fold_assign_other[where g = interval and k = "''interval''"], erule assign_other, assumption)
  apply (rule fold_assign_other[where g = wkst and k = "''wkst''"], erule assign_other, assumption)
  apply (rule fold_assign_other[where g = count and k = "''count''"], erule assign_other, assumption)
  apply (rule fold_assign_other[where g = until and k = "''until''"], erule assign_other, assumption)
  apply (rule fold_assign_other[where g = tzid and k = "''tzid''"], erule assign_other, assumption)
  apply (rule fold_assign_other[where g = bysetpos and k = "''bysetpos''"], erule assign_other, assumption)
  apply (rule fold_assign_other[where g = bymonth and k = "''bymonth''"], erule assign_other, assumption)
  apply (rule fold_assign_other[where g = bymonthday and k = "''bymonthday''"], erule assign_other, assumption)
  apply (rule fold_assign_other[where g = bynmonthday and k = "''bynmonthday''"], erule assign_other, assumption)
  apply (rule fold_assign_other[where g = byyearday and k = "''byyearday''"], erule assign_other, assumption)
  apply (rule fold_assign_other[where g = byweekno and k = "''byweekno''"], erule assign_other, assumption)
  apply (rule fold_assign_other[where g = byweekday and k = "''byweekday''"], erule assign_other, assumption)
  apply (rule fold_assign_other[where g = bynweekday and k = "''bynweekday''"], erule assign_other, assumption)
  apply (rule fold_assign_other[where g = byhour and k = "''byhour''"], erule assign_other, assumption)
  apply (rule fold_assign_other[where g = byminute and k = "''byminute''"], erule assign_other, assumption)
  apply (rule fold_assign_other[where g = bysecond and k = "''bysecond''"], erule assign_other, assumption)
  apply (rule fold_assign_other[where g = byeaster and k = "''byeaster''"], erule assign_other, assumption)
  done

subsection \<open>Fields that a stage leaves alone\<close>

lemma easter_stage_keeps [simp]:
  "dtstart (easter_stage opts) = dtstart opts"
  "wkst (easter_stage opts) = wkst opts"
  "bysetpos (easter_stage opts) = bysetpos opts"
  "bymonth (easter_stage opts) = bymonth opts"
  "bymonthday (easter_stage opts) = bymonthday opts"
  "bynmonthday (easter_stage opts) = bynmonthday opts"
  "byyearday (easter_stage opts) = byyearday opts"
  "byweekno (easter_stage opts) = byweekno opts"
  "byweekday (easter_stage opts) = byweekday opts"
  "bynweekday (easter_stage opts) = bynweekday opts"
  "byhour (easter_stage opts) = byhour opts"
  "byminute (easter_stage opts) = byminute opts"
  "bysecond (easter_stage opts) = bysecond opts"
  "byeaster (easter_stage opts) = byeaster opts"
  by (simp_all add: easter_stage_def Let_def split: if_splits)

lemma wkst_stage_keeps [simp]:
  "freq (wkst_stage opts) = freq opts"
  "dtstart (wkst_stage opts) = dtstart opts"
  "bysetpos (wkst_stage opts) = bysetpos opts"
  "bymonth (wkst_stage opts) = bymonth opts"
  "bymonthday (wkst_stage opts) = bymonthday opts"
  "bynmonthday (wkst_stage opts) = bynmonthday opts"
  "byyearday (wkst_stage opts) = byyearday opts"
  "byweekno (wkst_stage opts) = byweekno opts"
  "byweekday (wkst_stage opts) = byweekday opts"
  "bynweekday (wkst_stage opts) = bynweekday opts"
  "byhour (wkst_stage opts) = byhour opts"
  "byminute (wkst_stage opts) = byminute opts"
  "bysecond (wkst_stage opts) = bysecond opts"
  "byeaster (wkst_stage opts) = byeaster opts"
  by (simp_all add: wkst_stage_def Let_def split: option.splits ByWeekday.splits)

lemma implicit_stage_keeps [simp]:
  "freq (implicit_stage dt opts) = freq opts"
  "dtstart (implicit_stage dt opts) = dtstart opts"
  "wkst (implicit_stage dt opts) = wkst opts"
  "bysetpos (implicit_stage dt opts) = bysetpos opts"
  "bynmonthday (implicit_stage dt opts) = bynmonthday opts"
  "byyearday (implicit_stage dt opts) = byyearday opts"
  "byweekno (implicit_stage dt opts) = byweekno opts"
  "bynweekday (implicit_stage dt opts) = bynweekday opts"
  "byhour (implicit_stage dt opts) = byhour opts"
  "byminute (implicit_stage dt opts) = byminute opts"
  "bysecond (implicit_stage dt opts) = bysecond opts"
  "byeaster (implicit_stage dt opts) = byeaster opts"
  by (simp_all add: implicit_stage_def Let_def split: if_splits)

lemma bymonth_stage_keeps [simp]:
  "freq (bymonth_stage opts) = freq opts"
  "dtstart (bymonth_stage opts) = dtstart opts"
  "wkst (bymonth_stage opts) = wkst opts"
  "bysetpos (bymonth_stage opts) = bysetpos opts"
  "bymonthday (bymonth_stage opts) = bymonthday opts"
  "bynmonthday (bymonth_stage opts) = bynmonthday opts"
  "byyearday (bymonth_stage opts) = byyearday opts"
  "byweekno (bymonth_stage opts) = byweekno opts"
  "byweekday (bymonth_stage opts) = byweekday opts"
  "bynweekday (bymonth_stage opts) = bynweekday opts"
  "byhour (bymonth_stage opts) = byhour opts"
  "byminute (bymonth_stage opts) = byminute opts"
  "bysecond (bymonth_stage opts) = bysecond opts"
  "byeaster (bymonth_stage opts) = byeaster opts"
  by (simp_all add: bymonth_stage_def Let_def split: num_or_arr.splits)

lemma byyearday_stage_keeps [simp]:
  "freq (byyearday_stage opts) = freq opts"
  "dtstart (byyearday_stage opts) = dtstart opts"
  "wkst (byyearday_stage opts) = wkst opts"
  "bysetpos (byyearday_stage opts) = bysetpos opts"
  "bymonth (byyearday_stage opts) = bymonth opts"
  "bymonthday (byyearday_stage opts) = bymonthday opts"
  "bynmonthday (byyearday_stage opts) = bynmonthday opts"
  "byweekno (byyearday_stage opts) = byweekno opts"
  "byweekday (byyearday_stage opts) = byweekday opts"
  "bynweekday (byyearday_stage opts) = bynweekday opts"
  "byhour (byyearday_stage opts) = byhour opts"
  "byminute (byyearday_stage opts) = byminute opts"
  "bysecond (byyearday_stage opts) = bysecond opts"
  "byeaster (byyearday_stage opts) = byeaster opts"
  by (simp_all add: byyearday_stage_def Let_def split: num_or_arr.splits)

lemma bymonthday_stage_keeps [simp]:
  "freq (bymonthday_stage opts) = freq opts"
  "dtstart (bymonthday_stage opts) = dtstart opts"
  "wkst (bymonthday_stage opts) = wkst opts"
  "bysetpos (bymonthday_stage opts) = bysetpos opts"
  "bymonth (bymonthday_stage opts) = bymonth opts"
  "byyearday (bymonthday_stage opts) = byyearday opts"
  "byweekno (bymonthday_stage opts) = byweekno opts"
  "byweekday (bymonthday_stage opts) = byweekday opts"
  "bynweekday (bymonthday_stage opts) = bynweekday opts"
  "byhour (bymonthday_stage opts) = byhour opts"
  "byminute (bymonthday_stage opts) = byminute opts"
  "bysecond (bymonthday_stage opts) = bysecond opts"
  "byeaster (bymonthday_stage opts) = byeaster opts"
  by (simp_all add: bymonthday_stage_def Let_def split: num_or_arr.splits prod.splits)

lemma byweekno_stage_keeps [simp]:
  "freq (byweekno_stage opts) = freq opts"
  "dtstart (byweekno_stage opts) = dtstart opts"
  "wkst (byweekno_stage opts) = wkst opts"
  "bysetpos (byweekno_stage opts) = bysetpos opts"
  "bymonth (byweekno_stage opts) = bymonth opts"
  "bymonthday (byweekno_stage opts) = bymonthday opts"
  "bynmonthday (byweekno_stage opts) = bynmonthday opts"
  "byyearday (byweekno_stage opts) = byyearday opts"
  "byweekday (byweekno_stage opts) = byweekday opts"
  "bynweekday (byweekno_stage opts) = bynweekday opts"
  "byhour (byweekno_stage opts) = byhour opts"
  "byminute (byweekno_stage opts) = byminute opts"
  "bysecond (byweekno_stage opts) = bysecond opts"
  "byeaster (byweekno_stage opts) = byeaster opts"
  by (simp_all add: byweekno_stage_def Let_def split: num_or_arr.splits)

lemma byweekday_stage_keeps [simp]:
  "freq (byweekday_stage opts) = freq opts"
  "dtstart (byweekday_stage opts) = dtstart opts"
  "wkst (byweekday_stage opts) = wkst opts"
  "bysetpos (byweekday_stage opts) = bysetpos opts"
  "bymonth (byweekday_stage opts) = bymonth opts"
  "bymonthday (byweekday_stage opts) = bymonthday opts"
  "bynmonthday (byweekday_stage opts) = bynmonthday opts"
  "byyearday (byweekday_stage opts) = byyearday opts"
  "byweekno (byweekday_stage opts) = byweekno opts"
  "byhour (byweekday_stage opts) = byhour opts"
  "byminute (byweekday_stage opts) = byminute opts"
  "bysecond (byweekday_stage opts) = bysecond opts"
  "byeaster (byweekday_stage opts) = byeaster opts"
  by (simp_all add: byweekday_stage_def Let_def split: byweekday_val.splits ByWeekday.splits option.splits prod.splits)

lemma byhour_stage_keeps [simp]:
  "freq (byhour_stage dt opts) = freq opts"
  "dtstart (byhour_stage dt opts) = dtstart opts"
  "wkst (byhour_stage dt opts) = wkst opts"
  "bysetpos (byhour_stage dt opts) = bysetpos opts"
  "bymonth (byhour_stage dt opts) = bymonth opts"
  "bymonthday (byhour_stage dt opts) = bymonthday opts"
  "bynmonthday (byhour_stage dt opts) = bynmonthday opts"
  "byyearday (byhour_stage dt opts) = byyearday opts"
  "byweekno (byhour_stage dt opts) = byweekno opts"
  "byweekday (byhour_stage dt opts) = byweekday opts"
  "bynweekday (byhour_stage dt opts) = bynweekday opts"
  "byminute (byhour_stage dt opts) = byminute opts"
  "bysecond (byhour_stage dt opts) = bysecond opts"
  "byeaster (byhour_stage dt opts) = byeaster opts"
  by (simp_all add: byhour_stage_def Let_def split: num_or_arr.splits)

lemma byminute_stage_keeps [simp]:
  "freq (byminute_stage dt opts) = freq opts"
  "dtstart (byminute_stage dt opts) = dtstart opts"
  "wkst (byminute_stage dt opts) = wkst opts"
  "bysetpos (byminute_stage dt opts) = bysetpos opts"
  "bymonth (byminute_stage dt opts) = bymonth opts"
  "bymonthday (byminute_stage dt opts) = bymonthday opts"
  "bynmonthday (byminute_stage dt opts) = bynmonthday opts"
  "byyearday (byminute_stage dt opts) = byyearday opts"
  "byweekno (byminute_stage dt opts) = byweekno opts"
  "byweekday (byminute_stage dt opts) = byweekday opts"
  "bynweekday (byminute_stage dt opts) = bynweekday opts"
  "byhour (byminute_stage dt opts) = byhour opts"
  "bysecond (byminute_stage dt opts) = bysecond opts"
  "byeaster (byminute_stage dt opts) = byeaster opts"
  by (simp_all add: byminute_stage_def Let_def split: num_or_arr.splits)

lemma bysecond_stage_keeps [simp]:
  "freq (bysecond_stage dt opts) = freq opts"
  "dtstart (bysecond_stage dt opts) = dtstart opts"
  "wkst (bysecond_stage dt opts) = wkst opts"
  "bysetpos (bysecond_stage dt opts) = bysetpos opts"
  "bymonth (bysecond_stage dt opts) = bymonth opts"
  "bymonthday (bysecond_stage dt opts) = bymonthday opts"
  "bynmonthday (bysecond_stage dt opts) = bynmonthday opts"
  "byyearday (bysecond_stage dt opts) = byyearday opts"
  "byweekno (bysecond_stage dt opts) = byweekno opts"
  "byweekday (bysecond_stage dt opts) = byweekday opts"
  "bynweekday (bysecond_stage dt opts) = bynweekday opts"
  "byhour (bysecond_stage dt opts) = byhour opts"
  "byminute (bysecond_stage dt opts) = byminute opts"
  "byeaster (bysecond_stage dt opts) = byeaster opts"
  by (simp_all add: bysecond_stage_def Let_def split: num_or_arr.splits)

lemma normalize_fields_keeps [simp]:
  "freq (normalize_fields dt opts) = freq opts"
  "dtstart (normalize_fields dt opts) = dtstart opts"
  "wkst (normalize_fields dt opts) = wkst opts"
  "bysetpos (normalize_fields dt opts) = bysetpos opts"
  "byeaster (normalize_fields dt opts) = byeaster opts"
  by (simp_all add: normalize_fields_def)

subsection \<open>The result of \<^verbatim>\<open>parseOptions\<close>\<close>

lemma bysetpos_stage_eq:
  "bysetpos_stage opts =
     (if \<forall>v\<in>set (list_of (bysetpos opts)). setpos_ok v
      then Inr (opts\<lparr>bysetpos := promote (bysetpos opts)\<rparr>)
      else Inl (InvalidSetPosition setpos_message))"
proof (cases "bysetpos opts")
  case Null
  then show ?thesis by (simp add: bysetpos_stage_def list_of_def promote_def)
next
  case (Num v)
  then show ?thesis
    by (simp add: bysetpos_stage_def list_of_def promote_def setpos_ok_def setpos_message_def)
next
  case (Arr vs)
  have "opts\<lparr>bysetpos := Arr vs\<rparr> = opts" using Arr by simp
  with Arr show ?thesis
    using bysetpos_loop_None[of vs] bysetpos_loop_Some[of vs]
    by (auto simp: bysetpos_stage_def list_of_def promote_def setpos_ok_def setpos_message_def
             split: option.splits)
qed

lemma byhour_normalize:
  "byhour (normalize_fields dt opts) =
     (case byhour opts of
        Null \<Rightarrow> if ToNumber (freq opts) < HOURLY then Arr [getUTCHours dt] else Null
      | Num v \<Rightarrow> Arr [v]
      | Arr vs \<Rightarrow> Arr vs)"
  by (simp add: normalize_fields_def byhour_stage_def split: num_or_arr.splits)

lemma byminute_normalize:
  "byminute (normalize_fields dt opts) =
     (case byminute opts of
        Null \<Rightarrow> if ToNumber (freq opts) < MINUTELY then Arr [getUTCMinutes dt] else Null
      | Num v \<Rightarrow> Arr [v]
      | Arr vs \<Rightarrow> Arr vs)"
  by (simp add: normalize_fields_def byminute_stage_def split: num_or_arr.splits)

lemma bysecond_normalize:
  "bysecond (normalize_fields dt opts) =
     (case bysecond opts of
        Null \<Rightarrow> if ToNumber (freq opts) < SECONDLY then Arr [getUTCSeconds dt] else Null
      | Num v \<Rightarrow> Arr [v]
      | Arr vs \<Rightarrow> Arr vs)"
  by (simp add: normalize_fields_def bysecond_stage_def split: num_or_arr.splits)

lemma coarse_lists:
  assumes "ToNumber (freq opts) < HOURLY"
  shows "\<exists>hs ms ss. byhour (normalize_fields dt opts) = Arr hs \<and>
           byminute (normalize_fields dt opts) = Arr ms \<and>
           bysecond (normalize_fields dt opts) = Arr ss"
  using assms
  by (simp add: byhour_normalize byminute_normalize bysecond_normalize
        HOURLY_def MINUTELY_def SECONDLY_def split: num_or_arr.splits)

lemma build_timeset_Arr:
  assumes "byhour opts = Arr hs" "byminute opts = Arr ms" "bysecond opts = Arr ss"
  shows "build_timeset mm opts =
           Inr (if ToNumber (freq opts) \<ge> HOURLY then None
                else Some (dateutil_sort (cross_product mm hs ms ss)))"
  using assms by (simp add: build_timeset_def hour_loop_eq cross_product_def)

lemma parseOptions_eq:
  "parseOptions now options =
     (if invalid_keys options \<noteq> []
      then Inl (InvalidOptionKey (''Invalid options: '' @ join '', '' (invalid_keys options)))
      else if \<not> freq_ok (resolved options)
      then Inl (InvalidFrequency (freq (resolved options)))
      else if \<not> (\<forall>v\<in>set (list_of (bysetpos (resolved options))). setpos_ok v)
      then Inl (InvalidSetPosition setpos_message)
      else
        (case build_timeset (millisecondModulo (anchor now options))
                (normalize_fields (anchor now options) (validated now options)) of
           Inl e \<Rightarrow> Inl e
         | Inr timeset \<Rightarrow>
             Inr (normalize_fields (anchor now options) (validated now options), timeset)))"
  by (simp add: parseOptions_def initializeOptions_eq bysetpos_stage_eq Let_def
        resolved_def anchor_def validated_def merged_def split: sum.splits)

lemma build_timeset_normalized:
  "build_timeset mm (normalize_fields dt opts) = Inr (timeset_of mm (normalize_fields dt opts))"
proof (cases "ToNumber (freq opts) \<ge> HOURLY")
  case True
  then show ?thesis by (simp add: build_timeset_def timeset_of_def)
next
  case False
  then have "ToNumber (freq opts) < HOURLY" by simp
  from coarse_lists[OF this, of dt] obtain hs ms ss where
    l: "byhour (normalize_fields dt opts) = Arr hs"
       "byminute (normalize_fields dt opts) = Arr ms"
       "bysecond (normalize_fields dt opts) = Arr ss"
    by blast
  show ?thesis
    using False by (simp add: build_timeset_Arr[OF l] timeset_of_def l list_of_def)
qed

lemma parseOptions_result:
  "parseOptions now options =
     (if invalid_keys options \<noteq> []
      then Inl (InvalidOptionKey (''Invalid options: '' @ join '', '' (invalid_keys options)))
      else if \<not> freq_ok (resolved options)
      then Inl (InvalidFrequency (freq (resolved options)))
      else if \<not> (\<forall>v\<in>set (list_of (bysetpos (resolved options))). setpos_ok v)
      then Inl (InvalidSetPosition setpos_message)
      else Inr (normalize_fields (anchor now options) (validated now options),
                timeset_of (millisecondModulo (anchor now options))
                  (normalize_fields (anchor now options) (validated now options))))"
  by (simp add: parseOptions_eq build_timeset_normalized)

lemma freq_ok_member: "freq_ok opts \<longleftrightarrow> frequency_member (freq opts)"
proof (cases "freq opts")
  case None
  then show ?thesis by (simp add: freq_ok_def frequency_member_def)
next
  case (Some f)
  have "FREQUENCIES_at f \<longleftrightarrow> f = 0 \<or> f = 1 \<or> f = 2 \<or> f = 3 \<or> f = 4 \<or> f = 5 \<or> f = 6"
  proof
    assume "FREQUENCIES_at f"
    then have "0 \<le> f \<and> f < 7" by (simp add: FREQUENCIES_at_def FREQUENCIES_def)
    then show "f = 0 \<or> f = 1 \<or> f = 2 \<or> f = 3 \<or> f = 4 \<or> f = 5 \<or> f = 6" by arith
  next
    assume "f = 0 \<or> f = 1 \<or> f = 2 \<or> f = 3 \<or> f = 4 \<or> f = 5 \<or> f = 6"
    then show "FREQUENCIES_at f"
      by (auto simp: FREQUENCIES_at_def FREQUENCIES_def nth_Cons')
  qed
  with Some show ?thesis
    by (simp add: freq_ok_def frequency_member_def YEARLY_def MONTHLY_def WEEKLY_def
          DAILY_def HOURLY_def MINUTELY_def SECONDLY_def)
qed

subsection \<open>Frequencies and intermediate states\<close>

lemma frequency_distinct:
  "YEARLY \<noteq> MONTHLY" "YEARLY \<noteq> WEEKLY" "MONTHLY \<noteq> WEEKLY" "MONTHLY \<noteq> YEARLY"
  "WEEKLY \<noteq> YEARLY" "WEEKLY \<noteq> MONTHLY"
  "DAILY \<noteq> YEARLY" "DAILY \<noteq> MONTHLY" "DAILY \<noteq> WEEKLY"
  "HOURLY \<noteq> YEARLY" "HOURLY \<noteq> MONTHLY" "HOURLY \<noteq> WEEKLY"
  "MINUTELY \<noteq> YEARLY" "MINUTELY \<noteq> MONTHLY" "MINUTELY \<noteq> WEEKLY"
  "SECONDLY \<noteq> YEARLY" "SECONDLY \<noteq> MONTHLY" "SECONDLY \<noteq> WEEKLY"
  by (simp_all add: YEARLY_def MONTHLY_def WEEKLY_def DAILY_def HOURLY_def MINUTELY_def
        SECONDLY_def)

lemma resolved_keeps [simp]:
  "bysetpos (resolved options) = bysetpos (merged options)"
  "byeaster (resolved options) = byeaster (merged options)"
  "dtstart (resolved options) = dtstart (merged options)"
  by (simp_all add: resolved_def)

lemma resolved_freq:
  "freq (resolved options) =
     (if byeaster (merged options) \<noteq> None then Some YEARLY else freq (merged options))"
  by (simp add: resolved_def easter_stage_def)

lemma validated_keeps [simp]:
  "freq (validated now options) = freq (resolved options)"
  "dtstart (validated now options) = Some (anchor now options)"
  "bysetpos (validated now options) = promote (bysetpos (merged options))"
  by (simp_all add: validated_def)

subsection \<open>The millisecond remainder and the clock\<close>

lemma millisecondModulo_cases:
  "millisecondModulo dt =
     (if 0 \<le> dt \<or> dt mod 1000 = 0 then getUTCMilliseconds dt
      else getUTCMilliseconds dt - 1000)"
proof (cases "0 \<le> dt")
  case True
  then show ?thesis
    by (cases "dt = 0") (simp_all add: millisecondModulo_def js_rem_def getUTCMilliseconds_def)
next
  case False
  then have neg: "dt < 0" by simp
  have "\<bar>dt\<bar> mod 1000 = (- dt) mod 1000" using neg by simp
  also have "\<dots> = (if dt mod 1000 = 0 then 0 else 1000 - dt mod 1000)"
    by (simp add: zmod_zminus1_eq_if)
  finally show ?thesis
    using neg by (simp add: millisecondModulo_def js_rem_def getUTCMilliseconds_def)
qed

lemma default_anchor_modulo: "millisecondModulo (now - now mod 1000) = 0"
proof -
  have "(now - now mod 1000) mod 1000 = 0" by (simp add: mod_diff_left_eq [symmetric])
  then show ?thesis by (simp add: millisecondModulo_cases getUTCMilliseconds_def)
qed

lemma default_dtstart_only:
  assumes "dtstart (merged options) = None"
  shows "parseOptions now options =
           parseOptions now' (options @ [K_dtstart (Some (now - now mod 1000))])"
proof -
  let ?e = "K_dtstart (Some (now - now mod 1000))"
  have m: "merged (options @ [?e]) = (merged options)\<lparr>dtstart := Some (now - now mod 1000)\<rparr>"
    by (simp add: merged_def merge_defaults_def)
  have k: "invalid_keys (options @ [?e]) = invalid_keys options"
    by (simp add: invalid_keys_def keys_def defaultKeys_def)
  have r: "resolved (options @ [?e]) = (resolved options)\<lparr>dtstart := Some (now - now mod 1000)\<rparr>"
    by (simp add: resolved_def m easter_stage_def)
  have a: "anchor now' (options @ [?e]) = now - now mod 1000"
    by (simp add: anchor_def r resolve_dtstart_def)
  have a': "anchor now options = now - now mod 1000"
    using assms by (simp add: anchor_def resolve_dtstart_def)
  have v: "validated now' (options @ [?e]) = validated now options"
    by (simp add: validated_def r a a')
  have f: "freq_ok (resolved (options @ [?e])) = freq_ok (resolved options)"
    by (simp add: freq_ok_def r)
  have fr: "freq (resolved (options @ [?e])) = freq (resolved options)"
    by (simp add: r)
  have bs: "bysetpos (merged (options @ [?e])) = bysetpos (merged options)"
    by (simp add: m)
  show ?thesis
    by (simp add: parseOptions_result k f v a a' fr bs)
qed

subsection \<open>The timeset\<close>

lemma validated_keeps_lists [simp]:
  "byhour (validated now options) = byhour (merged options)"
  "byminute (validated now options) = byminute (merged options)"
  "bysecond (validated now options) = bysecond (merged options)"
  "bymonth (validated now options) = bymonth (merged options)"
  "bymonthday (validated now options) = bymonthday (merged options)"
  "byyearday (validated now options) = byyearday (merged options)"
  "byweekno (validated now options) = byweekno (merged options)"
  "byweekday (validated now options) = byweekday (merged options)"
  "byeaster (validated now options) = byeaster (merged options)"
  by (simp_all add: validated_def resolved_def)

lemma cross_product_empty:
  "cross_product mm hs ms ss = [] \<longleftrightarrow> hs = [] \<or> ms = [] \<or> ss = []"
  by (auto simp: cross_product_def)

lemma cross_product_length:
  "length (cross_product mm hs ms ss) = length hs * length ms * length ss"
proof -
  have inner: "length (concat (map (\<lambda>m. map (\<lambda>s. \<lparr>hour = h, minute = m, second = s, millisecond = mm\<rparr>) ss) ms))
                 = length ms * length ss" for h
    by (induction ms) simp_all
  show ?thesis
    unfolding cross_product_def
    by (induction hs) (simp_all add: inner algebra_simps)
qed

lemma cross_product_millisecond:
  "t \<in> set (cross_product mm hs ms ss) \<Longrightarrow> millisecond t = mm"
  by (auto simp: cross_product_def)

lemma dateutil_sort_props:
  "sorted (map time_key (dateutil_sort ts))"
  "set (dateutil_sort ts) = set ts"
  "length (dateutil_sort ts) = length ts"
  "dateutil_sort ts = [] \<longleftrightarrow> ts = []"
proof -
  show "sorted (map time_key (dateutil_sort ts))" by (simp add: dateutil_sort_def)
  show "set (dateutil_sort ts) = set ts" by (simp add: dateutil_sort_def)
  show l: "length (dateutil_sort ts) = length ts" by (simp add: dateutil_sort_def)
  show "dateutil_sort ts = [] \<longleftrightarrow> ts = []" using l by (metis length_0_conv)
qed

lemma dateutil_sort_example:
  "dateutil_sort
     [\<lparr>hour = 9, minute = 0, second = 0, millisecond = 0\<rparr>,
      \<lparr>hour = 9, minute = 30, second = 0, millisecond = 0\<rparr>,
      \<lparr>hour = 10, minute = 0, second = 0, millisecond = 0\<rparr>,
      \<lparr>hour = 10, minute = 30, second = 0, millisecond = 0\<rparr>] =
     [\<lparr>hour = 9, minute = 0, second = 0, millisecond = 0\<rparr>,
      \<lparr>hour = 9, minute = 30, second = 0, millisecond = 0\<rparr>,
      \<lparr>hour = 10, minute = 0, second = 0, millisecond = 0\<rparr>,
      \<lparr>hour = 10, minute = 30, second = 0, millisecond = 0\<rparr>]"
  by code_simp

lemma coarse_result_lists:
  assumes "parseOptions now options = Inr (res, timeset)"
  shows "res = normalize_fields (anchor now options) (validated now options)"
    and "timeset = timeset_of (millisecondModulo (anchor now options)) res"
    and "freq res = freq (resolved options)"
    and "frequency_member (freq res)"
    and "dtstart res = Some (anchor now options)"
  using assms by (auto simp: parseOptions_result freq_ok_member split: if_splits)

lemma produced_timeset_shape:
  assumes "parseOptions now options = Inr (res, Some ts)"
  shows "\<exists>hs ms ss. byhour res = Arr hs \<and> byminute res = Arr ms \<and> bysecond res = Arr ss \<and>
           ts = dateutil_sort (cross_product (millisecondModulo (anchor now options)) hs ms ss)"
proof -
  note r = coarse_result_lists[OF assms]
  have c: "ToNumber (freq res) < HOURLY"
    using r(2) by (auto simp: timeset_of_def split: if_splits)
  then have "ToNumber (freq (validated now options)) < HOURLY" using r(1) by simp
  from coarse_lists[OF this, of "anchor now options"] obtain hs ms ss where
    l: "byhour res = Arr hs" "byminute res = Arr ms" "bysecond res = Arr ss"
    using r(1) by auto
  then show ?thesis
    using r(2) c by (simp add: timeset_of_def list_of_def)
qed

lemma normalized_list_nonempty:
  "byhour (merged options) \<noteq> Arr [] \<Longrightarrow>
     byhour (normalize_fields dt (validated now options)) \<noteq> Arr []"
  "byminute (merged options) \<noteq> Arr [] \<Longrightarrow>
     byminute (normalize_fields dt (validated now options)) \<noteq> Arr []"
  "bysecond (merged options) \<noteq> Arr [] \<Longrightarrow>
     bysecond (normalize_fields dt (validated now options)) \<noteq> Arr []"
  by (auto simp: byhour_normalize byminute_normalize bysecond_normalize
        split: num_or_arr.splits)

lemma timeset_millisecond:
  assumes "parseOptions now options = Inr (res, Some ts)" "t \<in> set ts"
  shows "millisecond t = millisecondModulo (anchor now options)"
    and "0 \<le> anchor now options \<or> anchor now options mod 1000 = 0 \<Longrightarrow>
           millisecond t = getUTCMilliseconds (anchor now options)"
proof -
  from produced_timeset_shape[OF assms(1)] obtain hs ms ss where
    "ts = dateutil_sort (cross_product (millisecondModulo (anchor now options)) hs ms ss)"
    by blast
  with assms(2) have "t \<in> set (cross_product (millisecondModulo (anchor now options)) hs ms ss)"
    by (simp add: dateutil_sort_props)
  then show m: "millisecond t = millisecondModulo (anchor now options)"
    by (rule cross_product_millisecond)
  show "millisecond t = getUTCMilliseconds (anchor now options)"
    if "0 \<le> anchor now options \<or> anchor now options mod 1000 = 0"
    using that m by (simp add: millisecondModulo_cases)
qed

subsection \<open>Month days, weekdays and the implicit constraint\<close>

lemma bymonthday_stage_buckets:
  "bymonthday (bymonthday_stage opts) =
     (case bymonthday opts of
        Null \<Rightarrow> Arr []
      | Num v \<Rightarrow> if v < 0 then Arr [] else Arr [v]
      | Arr vs \<Rightarrow> Arr (filter (\<lambda>v. 0 < v) vs))"
  "bynmonthday (bymonthday_stage opts) =
     (case bymonthday opts of
        Null \<Rightarrow> Some []
      | Num v \<Rightarrow> if v < 0 then Some [v] else Some []
      | Arr vs \<Rightarrow> Some (filter (\<lambda>v. v < 0) vs))"
  by (simp_all add: bymonthday_stage_def bymonthday_loop_eq split: num_or_arr.splits)

lemma normalize_fields_monthday:
  "bymonthday (normalize_fields dt opts) =
     bymonthday (bymonthday_stage (opts\<lparr>bymonthday := bymonthday (implicit_stage dt opts)\<rparr>))"
  "bynmonthday (normalize_fields dt opts) =
     bynmonthday (bymonthday_stage (opts\<lparr>bymonthday := bymonthday (implicit_stage dt opts)\<rparr>))"
  by (simp_all add: normalize_fields_def bymonthday_stage_buckets)

lemma implicit_stage_supplied:
  "bymonthday opts \<noteq> Null \<Longrightarrow> bymonthday (implicit_stage dt opts) = bymonthday opts"
  "byweekday opts \<noteq> BwNull \<Longrightarrow> byweekday (implicit_stage dt opts) = byweekday opts"
  by (cases "bymonthday opts"; simp add: implicit_stage_def implicit_condition_def)+

lemma finer_than_monthly_iff:
  "frequency_member f \<Longrightarrow> ToNumber f > MONTHLY \<longleftrightarrow> finer_than_monthly f"
  by (auto simp: frequency_member_def finer_than_monthly_def YEARLY_def MONTHLY_def WEEKLY_def
        DAILY_def HOURLY_def MINUTELY_def SECONDLY_def)

lemma coarse_frequency_iff:
  "frequency_member f \<Longrightarrow> \<not> finer_than_monthly f \<longleftrightarrow> f = Some YEARLY \<or> f = Some MONTHLY"
  by (auto simp: frequency_member_def finer_than_monthly_def YEARLY_def MONTHLY_def WEEKLY_def
        DAILY_def HOURLY_def MINUTELY_def SECONDLY_def)

lemma byweekday_loop_eq:
  assumes "frequency_member f"
  shows "byweekday_loop f ts (bw, bnw) =
           (bw @ map weekday_code (filter (to_plain f) ts),
            bnw @ List.map_filter (ordinal_pair f) ts)"
proof (induction ts arbitrary: bw bnw)
  case Nil
  then show ?case by (simp add: List.map_filter_simps)
next
  case (Cons t ts)
  show ?case
  proof (cases t)
    case (Code c)
    then show ?thesis using Cons by (simp add: List.map_filter_simps)
  next
    case (Wday wd)
    then show ?thesis
      using Cons finer_than_monthly_iff[OF assms]
      by (cases "n_of wd") (simp_all add: List.map_filter_simps has_ordinal_def)
  qed
qed

lemma byweekday_stage_single:
  assumes "frequency_member (freq opts)" "byweekday opts = BwOne (Wday wd)"
  shows "\<not> has_ordinal wd \<or> finer_than_monthly (freq opts) \<Longrightarrow>
           byweekday (byweekday_stage opts) = BwArr [Code (weekday wd)] \<and>
           bynweekday (byweekday_stage opts) = None"
    and "n_of wd = Some k \<Longrightarrow> k \<noteq> 0 \<Longrightarrow> \<not> finer_than_monthly (freq opts) \<Longrightarrow>
           byweekday (byweekday_stage opts) = BwNull \<and>
           bynweekday (byweekday_stage opts) = Some [(weekday wd, k)]"
  using assms(2) finer_than_monthly_iff[OF assms(1)]
  by (auto simp: byweekday_stage_def has_ordinal_def split: option.splits)

lemma byweekday_stage_other:
  "byweekday opts = BwNull \<Longrightarrow>
     byweekday (byweekday_stage opts) = BwNull \<and> bynweekday (byweekday_stage opts) = None"
  "byweekday opts = BwOne (Code c) \<Longrightarrow>
     byweekday (byweekday_stage opts) = BwArr [Code c] \<and>
     bynweekday (byweekday_stage opts) = None"
  by (simp_all add: byweekday_stage_def)

lemma byweekday_stage_array:
  assumes "frequency_member (freq opts)" "byweekday opts = BwArr ts"
  shows "byweekday (byweekday_stage opts) =
           (let p = map weekday_code (filter (to_plain (freq opts)) ts)
            in if p = [] then BwNull else BwArr (map Code p))"
    and "bynweekday (byweekday_stage opts) =
           (let q = List.map_filter (ordinal_pair (freq opts)) ts
            in if q = [] then None else Some q)"
  using assms(2) by (simp_all add: byweekday_stage_def byweekday_loop_eq[OF assms(1)] Let_def)

lemma normalize_fields_weekday:
  "byweekday (normalize_fields dt opts) =
     byweekday (byweekday_stage (opts\<lparr>byweekday := byweekday (implicit_stage dt opts)\<rparr>))"
  "bynweekday (normalize_fields dt opts) =
     bynweekday (byweekday_stage (opts\<lparr>byweekday := byweekday (implicit_stage dt opts)\<rparr>))"
  by (simp_all add: normalize_fields_def byweekday_stage_def
        split: byweekday_val.splits ByWeekday.splits option.splits prod.splits)

lemma getUTCDate_pos: "1 \<le> getUTCDate t"
proof -
  define doy where "doy = day_of_year t"
  define mp where "mp = (5 * doy + 2) div 153"
  have "153 * mp \<le> 5 * doy + 2" unfolding mp_def by simp
  then have "153 * mp + 2 < 5 * (doy + 1)" by simp
  then have "(153 * mp + 2) div 5 < doy + 1" by (simp add: div_less_iff_less_mult)
  then show ?thesis
    by (simp add: getUTCDate_def Let_def doy_def mp_def)
qed

lemma implicit_condition_validated:
  "implicit_condition (validated now options) = implicit_condition (merged options)"
  by (simp add: implicit_condition_def)

lemma implicit_condition_absent:
  assumes "byweekno opts = Null" "bymonthday opts = Null"
    "byyearday opts = Null \<or> byyearday opts = Arr []"
    "byweekday opts = BwNull" "byeaster opts = None"
  shows "implicit_condition opts"
  using assms by (auto simp: implicit_condition_def)

lemma implicit_condition_given:
  assumes "constraint_given (byweekno opts) \<or> constraint_given (byyearday opts) \<or>
           constraint_given (bymonthday opts) \<or> byweekday opts \<noteq> BwNull \<or>
           byeaster opts \<noteq> None"
  shows "\<not> implicit_condition opts"
  using assms
  by (cases "byweekno opts"; cases "byyearday opts"; cases "bymonthday opts")
     (auto simp: implicit_condition_def constraint_given_def)

lemma implicit_stage_effects:
  assumes "implicit_condition opts"
  shows "freq opts = Some YEARLY \<Longrightarrow> bymonth opts = Null \<Longrightarrow>
           implicit_stage dt opts =
             opts\<lparr>bymonth := Num (getUTCMonth dt + 1), bymonthday := Num (getUTCDate dt)\<rparr>"
    and "freq opts = Some YEARLY \<Longrightarrow> Boolean (bymonth opts) \<Longrightarrow>
           implicit_stage dt opts = opts\<lparr>bymonthday := Num (getUTCDate dt)\<rparr>"
    and "freq opts = Some MONTHLY \<Longrightarrow>
           implicit_stage dt opts = opts\<lparr>bymonthday := Num (getUTCDate dt)\<rparr>"
    and "freq opts = Some WEEKLY \<Longrightarrow>
           implicit_stage dt opts = opts\<lparr>byweekday := BwArr [Code (getWeekday dt)]\<rparr>"
    and "freq opts = Some DAILY \<or> freq opts = Some HOURLY \<or> freq opts = Some MINUTELY \<or>
         freq opts = Some SECONDLY \<Longrightarrow> implicit_stage dt opts = opts"
proof -
  show "freq opts = Some YEARLY \<Longrightarrow> bymonth opts = Null \<Longrightarrow>
           implicit_stage dt opts =
             opts\<lparr>bymonth := Num (getUTCMonth dt + 1), bymonthday := Num (getUTCDate dt)\<rparr>"
    using assms by (simp add: implicit_stage_def Let_def)
  show "freq opts = Some YEARLY \<Longrightarrow> Boolean (bymonth opts) \<Longrightarrow>
           implicit_stage dt opts = opts\<lparr>bymonthday := Num (getUTCDate dt)\<rparr>"
    using assms by (simp add: implicit_stage_def Let_def)
  show "freq opts = Some MONTHLY \<Longrightarrow>
           implicit_stage dt opts = opts\<lparr>bymonthday := Num (getUTCDate dt)\<rparr>"
    using assms by (simp add: implicit_stage_def frequency_distinct)
  show "freq opts = Some WEEKLY \<Longrightarrow>
           implicit_stage dt opts = opts\<lparr>byweekday := BwArr [Code (getWeekday dt)]\<rparr>"
    using assms by (simp add: implicit_stage_def frequency_distinct)
  show "implicit_stage dt opts = opts"
    if "freq opts = Some DAILY \<or> freq opts = Some HOURLY \<or> freq opts = Some MINUTELY \<or>
         freq opts = Some SECONDLY"
  proof -
    from that have "freq opts \<noteq> Some YEARLY" "freq opts \<noteq> Some MONTHLY"
      "freq opts \<noteq> Some WEEKLY"
      using frequency_distinct by auto
    then show ?thesis by (simp add: implicit_stage_def)
  qed
qed

lemma normalize_fields_month:
  "bymonth (normalize_fields dt opts) = promote (bymonth (implicit_stage dt opts))"
  by (simp add: normalize_fields_def bymonth_stage_def promote_def split: num_or_arr.splits)

section \<open>Properties\<close>

subsection \<open>Key validation\<close>

text \<open>
  C6. \<^verbatim>\<open>parseOptions\<close> fails with the invalid-key error exactly when some key of
  the input is not a recognised key, whatever the clock reading. The message is then
  \<^verbatim>\<open>Invalid options: \<close> followed by all the unrecognised keys of the input, in input
  order, joined with a comma and a space, so every one of them occurs in the message.
  An input whose keys are all recognised never fails with this error.
\<close>

theorem key_validation:
  "((\<exists>msg. parseOptions now options = Inl (InvalidOptionKey msg)) \<longleftrightarrow>
      (\<exists>k\<in>set (keys options). k \<notin> set defaultKeys)) \<and>
   (\<forall>msg. parseOptions now options = Inl (InvalidOptionKey msg) \<longrightarrow>
      msg = ''Invalid options: '' @ join '', '' (invalid_keys options) \<and>
      (\<forall>k\<in>set (keys options). k \<notin> set defaultKeys \<longrightarrow> sublist k msg))"
proof -
  have inv: "invalid_keys options \<noteq> [] \<longleftrightarrow> (\<exists>k\<in>set (keys options). k \<notin> set defaultKeys)"
    by (auto simp: invalid_keys_def filter_empty_conv)
  have sub: "sublist k (''Invalid options: '' @ join '', '' (invalid_keys options))"
    if "k \<in> set (keys options)" "k \<notin> set defaultKeys" for k
  proof -
    from that have "k \<in> set (invalid_keys options)" by (simp add: invalid_keys_def)
    then have "sublist k (join '', '' (invalid_keys options))" by (rule sublist_join)
    then obtain ps ss where "join '', '' (invalid_keys options) = ps @ k @ ss"
      by (auto simp: sublist_def)
    then have "''Invalid options: '' @ join '', '' (invalid_keys options) =
                 (''Invalid options: '' @ ps) @ k @ ss" by simp
    then show ?thesis unfolding sublist_def by blast
  qed
  show ?thesis
    using inv sub by (auto simp: parseOptions_result split: if_splits)
qed

text \<open>
  An input with the unrecognised keys \<^verbatim>\<open>foo\<close> and \<^verbatim>\<open>bar\<close>: both are in the message.
\<close>

theorem key_validation_witness:
  "\<exists>msg. parseOptions 0 [K_freq (Some DAILY), K_other ''foo'', K_other ''bar''] =
            Inl (InvalidOptionKey msg) \<and>
         msg = ''Invalid options: foo, bar'' \<and> sublist ''foo'' msg \<and> sublist ''bar'' msg"
  using key_validation[of 0 "[K_freq (Some DAILY), K_other ''foo'', K_other ''bar'']"]
  by (auto simp: keys_def defaultKeys_def invalid_keys_def)

subsection \<open>Frequency resolution\<close>

text \<open>
  C7, as stated, fails on an input that also has an unrecognised key: the frequency 9 is
  not a member of the enumeration and there is no Easter offset, but the call fails
  with the invalid-key error of the earlier check, not with the frequency error.
\<close>

theorem frequency_error_masked:
  "byeaster (merged [K_other ''foo'', K_freq (Some 9)]) = None \<and>
   \<not> frequency_member (freq (merged [K_other ''foo'', K_freq (Some 9)])) \<and>
   parseOptions 0 [K_other ''foo'', K_freq (Some 9)] =
     Inl (InvalidOptionKey ''Invalid options: foo'')"
  by (simp add: parseOptions_result invalid_keys_def keys_def defaultKeys_def merged_def
        merge_defaults_def DEFAULT_OPTIONS_def frequency_member_def YEARLY_def MONTHLY_def
        WEEKLY_def DAILY_def HOURLY_def MINUTELY_def SECONDLY_def)

text \<open>
  C7, amended. With a non-null Easter offset the call never fails with the frequency
  error, and the frequency of a returned result is YEARLY whatever was supplied. Without
  an Easter offset, and for an input whose keys are all recognised, the call fails with
  the frequency error exactly when the supplied or defaulted frequency is not one of
  the seven members of the enumeration. Whenever the frequency error is raised it
  carries that frequency, and the frequency of every returned result is a member.
\<close>

theorem frequency_resolution:
  "(byeaster (merged options) \<noteq> None \<longrightarrow>
      (\<forall>v. parseOptions now options \<noteq> Inl (InvalidFrequency v)) \<and>
      (\<forall>res ts. parseOptions now options = Inr (res, ts) \<longrightarrow> freq res = Some YEARLY)) \<and>
   (byeaster (merged options) = None \<and> invalid_keys options = [] \<longrightarrow>
      ((\<exists>v. parseOptions now options = Inl (InvalidFrequency v)) \<longleftrightarrow>
       \<not> frequency_member (freq (merged options)))) \<and>
   (\<forall>v. parseOptions now options = Inl (InvalidFrequency v) \<longrightarrow>
      byeaster (merged options) = None \<and> v = freq (merged options) \<and>
      \<not> frequency_member v) \<and>
   (\<forall>res ts. parseOptions now options = Inr (res, ts) \<longrightarrow> frequency_member (freq res))"
proof -
  have y: "frequency_member (Some YEARLY)" by (simp add: frequency_member_def)
  show ?thesis
    using y by (auto simp: parseOptions_result freq_ok_member resolved_freq split: if_splits)
qed

text \<open>
  An Easter offset with the frequency 9 succeeds with YEARLY; the frequency 9 alone
  fails; SECONDLY does not.
\<close>

theorem frequency_resolution_witness:
  "(\<exists>res ts. parseOptions 0 [K_byeaster (Some 0), K_freq (Some 9)] = Inr (res, ts) \<and>
        freq res = Some YEARLY) \<and>
   (\<exists>v. parseOptions 0 [K_freq (Some 9)] = Inl (InvalidFrequency v)) \<and>
   \<not> (\<exists>v. parseOptions 0 [K_freq (Some SECONDLY)] = Inl (InvalidFrequency v))"
proof -
  have a: "\<exists>res ts. parseOptions 0 [K_byeaster (Some 0), K_freq (Some 9)] = Inr (res, ts)"
    by (simp add: parseOptions_result invalid_keys_def keys_def defaultKeys_def merged_def
        merge_defaults_def DEFAULT_OPTIONS_def resolved_freq freq_ok_member
        frequency_member_def list_of_def)
  show ?thesis
    using a frequency_resolution[of "[K_byeaster (Some 0), K_freq (Some 9)]" 0]
      frequency_resolution[of "[K_freq (Some 9)]" 0]
      frequency_resolution[of "[K_freq (Some SECONDLY)]" 0]
    by (auto simp: invalid_keys_def keys_def defaultKeys_def merged_def merge_defaults_def
        DEFAULT_OPTIONS_def frequency_member_def YEARLY_def MONTHLY_def
        WEEKLY_def DAILY_def HOURLY_def MINUTELY_def SECONDLY_def)
qed

subsection \<open>The millisecond remainder\<close>

text \<open>
  C9 does not hold for a start instant before 1970 that is not on a whole second. For
  the instant 1969-12-31T23:59:59.999Z (time value -1) the millisecond component of
  the instant is 999, but line 42 computes -1, and the timeset of a DAILY rule is the
  single entry 23:59:59 with the millisecond field -1. For a start instant at or after
  the epoch, on a whole second, or taken from the default, the two values agree, as
  the auxiliary facts on \<open>millisecondModulo\<close> show.
\<close>

theorem millisecond_before_epoch:
  "getUTCMilliseconds (- 1) = 999 \<and>
   millisecondModulo (- 1) = - 1 \<and>
   parseOptions 0 [K_freq (Some DAILY), K_dtstart (Some (- 1))] =
     Inr (\<lparr>freq = Some DAILY, dtstart = Some (- 1), interval = 1,
            wkst = Some (Code 0), count = None, until = None, tzid = None,
            bysetpos = Null, bymonth = Null, bymonthday = Arr [], bynmonthday = Some [],
            byyearday = Null, byweekno = Null, byweekday = BwNull, bynweekday = None,
            byhour = Arr [23], byminute = Arr [59], bysecond = Arr [59], byeaster = None\<rparr>,
          Some [\<lparr>hour = 23, minute = 59, second = 59, millisecond = - 1\<rparr>])"
  by code_simp

subsection \<open>Independence of the clock\<close>

text \<open>
  C10. When the start instant is supplied, two calls on the same input at different
  clock readings return the same result, error or options with timeset. When it is not
  supplied, the call at clock reading \<open>now1\<close> is the call, at any clock reading, on the
  input extended with the default start instant \<open>now1\<close> truncated to whole seconds: the
  clock enters only through that default.
\<close>

theorem clock_independence:
  "(dtstart (merged options) \<noteq> None \<longrightarrow>
      parseOptions now1 options = parseOptions now2 options) \<and>
   (dtstart (merged options) = None \<longrightarrow>
      parseOptions now1 options =
        parseOptions now2 (options @ [K_dtstart (Some (now1 - now1 mod 1000))]))"
proof (intro conjI impI)
  assume "dtstart (merged options) \<noteq> None"
  then obtain d where "dtstart (merged options) = Some d" by auto
  then have "anchor now1 options = anchor now2 options"
    by (simp add: anchor_def resolve_dtstart_def)
  then show "parseOptions now1 options = parseOptions now2 options"
    by (simp add: parseOptions_result validated_def)
next
  assume "dtstart (merged options) = None"
  then show "parseOptions now1 options =
        parseOptions now2 (options @ [K_dtstart (Some (now1 - now1 mod 1000))])"
    by (rule default_dtstart_only)
qed

text \<open>
  A WEEKLY rule with a start instant, at two clock readings; and the same rule without
  one, whose result is that of the rule with the truncated clock reading as start.
\<close>

theorem clock_independence_witness:
  "parseOptions 0 [K_freq (Some WEEKLY), K_dtstart (Some 951782400123)] =
     parseOptions 1700000000999 [K_freq (Some WEEKLY), K_dtstart (Some 951782400123)] \<and>
   parseOptions 1700000000999 [K_freq (Some WEEKLY)] =
     parseOptions 0 [K_freq (Some WEEKLY), K_dtstart (Some 1700000000000)]"
  using clock_independence[of "[K_freq (Some WEEKLY), K_dtstart (Some 951782400123)]"
          0 1700000000999]
    clock_independence[of "[K_freq (Some WEEKLY)]" 1700000000999 0]
  by (simp add: merged_def merge_defaults_def DEFAULT_OPTIONS_def)

subsection \<open>Set positions\<close>

text \<open>
  C5, as stated, fails on an input that also has an unrecognised key: the set position
  0 is illegal, but the call fails with the invalid-key error of the earlier check.
\<close>

theorem setpos_error_masked:
  "list_of (bysetpos (merged [K_other ''foo'', K_bysetpos (Num 0)])) = [0] \<and>
   \<not> setpos_ok 0 \<and>
   parseOptions 0 [K_other ''foo'', K_bysetpos (Num 0)] =
     Inl (InvalidOptionKey ''Invalid options: foo'')"
  by (simp add: parseOptions_result invalid_keys_def keys_def defaultKeys_def merged_def
        merge_defaults_def list_of_def setpos_ok_def)

text \<open>
  C5, amended. For an input whose keys are all recognised and whose resolved frequency
  is a member of the enumeration, the call fails with the set-position error exactly
  when some element of the supplied set positions (a scalar counting as a one-element
  list) is 0 or outside -366 .. 366. For every input, the set-position error is raised
  only if there is such an element, such an element always makes the call fail with
  some error, and a returned result holds the set positions as a list (a scalar
  promoted) whose elements are all legal.
\<close>

theorem setpos_validation:
  "(invalid_keys options = [] \<and> frequency_member (freq (resolved options)) \<longrightarrow>
      ((\<exists>m. parseOptions now options = Inl (InvalidSetPosition m)) \<longleftrightarrow>
       (\<exists>v\<in>set (list_of (bysetpos (merged options))). \<not> setpos_ok v))) \<and>
   ((\<exists>m. parseOptions now options = Inl (InvalidSetPosition m)) \<longrightarrow>
      (\<exists>v\<in>set (list_of (bysetpos (merged options))). \<not> setpos_ok v)) \<and>
   ((\<exists>v\<in>set (list_of (bysetpos (merged options))). \<not> setpos_ok v) \<longrightarrow>
      (\<exists>e. parseOptions now options = Inl e)) \<and>
   (\<forall>res ts. parseOptions now options = Inr (res, ts) \<longrightarrow>
      bysetpos res = promote (bysetpos (merged options)) \<and>
      (\<forall>v\<in>set (list_of (bysetpos res)). setpos_ok v))"
proof -
  have "list_of (promote v) = list_of v" for v
    by (cases v) (simp_all add: list_of_def promote_def)
  then show ?thesis
    by (auto simp: parseOptions_result freq_ok_member split: if_splits)
qed

text \<open>
  The set position 0 fails, a list containing 367 fails, and -366 does not.
\<close>

theorem setpos_validation_witness:
  "(\<exists>m. parseOptions 0 [K_bysetpos (Num 0)] = Inl (InvalidSetPosition m)) \<and>
   (\<exists>m. parseOptions 0 [K_bysetpos (Arr [1, 367])] = Inl (InvalidSetPosition m)) \<and>
   \<not> (\<exists>m. parseOptions 0 [K_bysetpos (Num (- 366))] = Inl (InvalidSetPosition m))"
  using setpos_validation[of "[K_bysetpos (Num 0)]" 0]
    setpos_validation[of "[K_bysetpos (Arr [1, 367])]" 0]
    setpos_validation[of "[K_bysetpos (Num (- 366))]" 0]
  by (simp add: invalid_keys_def keys_def defaultKeys_def merged_def merge_defaults_def
        DEFAULT_OPTIONS_def resolved_freq frequency_member_def list_of_def setpos_ok_def)

subsection \<open>The timeset\<close>

text \<open>
  C2. Whenever \<^verbatim>\<open>parseOptions\<close> returns, the frequency of the result is a member of
  the enumeration. If it is HOURLY, MINUTELY or SECONDLY the timeset is \<^verbatim>\<open>null\<close>. If
  it is YEARLY, MONTHLY, WEEKLY or DAILY, the normalised hour, minute and second
  constraints are lists and the timeset is the sorted cross product of the three
  lists, hour outermost and second innermost: it has the same elements as the cross
  product, as many entries as the product of the three lengths, every entry carries
  the millisecond remainder of the start instant, and it is ascending by (hour,
  minute, second, millisecond). The DAILY rule with hours 9 and 10, minutes 0 and 30
  and second 0 yields exactly the four entries 9:00, 9:30, 10:00, 10:30.
\<close>

theorem timeset_construction:
  "(parseOptions now options = Inr (res, timeset) \<longrightarrow>
      frequency_member (freq res) \<and>
      (freq res = Some HOURLY \<or> freq res = Some MINUTELY \<or> freq res = Some SECONDLY \<longrightarrow>
         timeset = None) \<and>
      (freq res = Some YEARLY \<or> freq res = Some MONTHLY \<or> freq res = Some WEEKLY \<or>
       freq res = Some DAILY \<longrightarrow>
         (\<exists>hs ms ss ts.
            byhour res = Arr hs \<and> byminute res = Arr ms \<and> bysecond res = Arr ss \<and>
            timeset = Some ts \<and>
            ts = dateutil_sort
                   (cross_product (millisecondModulo (anchor now options)) hs ms ss) \<and>
            set ts = set (cross_product (millisecondModulo (anchor now options)) hs ms ss) \<and>
            length ts = length hs * length ms * length ss \<and>
            (\<forall>t\<in>set ts. millisecond t = millisecondModulo (anchor now options)) \<and>
            sorted (map time_key ts)))) \<and>
   (\<exists>res'. parseOptions now
             [K_freq (Some DAILY), K_byhour (Arr [9, 10]), K_byminute (Arr [0, 30]),
              K_bysecond (Arr [0])] =
           Inr (res',
                Some [\<lparr>hour = 9, minute = 0, second = 0, millisecond = 0\<rparr>,
                      \<lparr>hour = 9, minute = 30, second = 0, millisecond = 0\<rparr>,
                      \<lparr>hour = 10, minute = 0, second = 0, millisecond = 0\<rparr>,
                      \<lparr>hour = 10, minute = 30, second = 0, millisecond = 0\<rparr>]))"
proof (intro conjI impI)
  assume p: "parseOptions now options = Inr (res, timeset)"
  note r = coarse_result_lists[OF p]
  show "frequency_member (freq res)" by (rule r(4))
  {
    assume "freq res = Some HOURLY \<or> freq res = Some MINUTELY \<or> freq res = Some SECONDLY"
    then have "ToNumber (freq res) \<ge> HOURLY"
      by (auto simp: HOURLY_def MINUTELY_def SECONDLY_def)
    then show "timeset = None" using r(2) by (simp add: timeset_of_def)
  }
  {
    assume "freq res = Some YEARLY \<or> freq res = Some MONTHLY \<or> freq res = Some WEEKLY \<or>
       freq res = Some DAILY"
    then have c: "ToNumber (freq res) < HOURLY"
      by (auto simp: YEARLY_def MONTHLY_def WEEKLY_def DAILY_def HOURLY_def)
    then have "ToNumber (freq (validated now options)) < HOURLY" using r(1) by simp
    from coarse_lists[OF this, of "anchor now options"] obtain hs ms ss where
      l: "byhour res = Arr hs" "byminute res = Arr ms" "bysecond res = Arr ss"
      using r(1) by auto
    let ?mm = "millisecondModulo (anchor now options)"
    have t: "timeset = Some (dateutil_sort (cross_product ?mm hs ms ss))"
      using r(2) c l by (simp add: timeset_of_def list_of_def)
    show "\<exists>hs ms ss ts.
            byhour res = Arr hs \<and> byminute res = Arr ms \<and> bysecond res = Arr ss \<and>
            timeset = Some ts \<and>
            ts = dateutil_sort
                   (cross_product (millisecondModulo (anchor now options)) hs ms ss) \<and>
            set ts = set (cross_product (millisecondModulo (anchor now options)) hs ms ss) \<and>
            length ts = length hs * length ms * length ss \<and>
            (\<forall>t\<in>set ts. millisecond t = millisecondModulo (anchor now options)) \<and>
            sorted (map time_key ts)"
      using l t
      by (auto simp: dateutil_sort_props cross_product_length cross_product_millisecond)
  }
next
  let ?opts = "[K_freq (Some DAILY), K_byhour (Arr [9, 10]), K_byminute (Arr [0, 30]),
              K_bysecond (Arr [0])]"
  have m: "merged ?opts = DEFAULT_OPTIONS\<lparr>freq := Some DAILY, byhour := Arr [9, 10],
             byminute := Arr [0, 30], bysecond := Arr [0]\<rparr>"
    by (simp add: merged_def merge_defaults_def)
  have a: "millisecondModulo (anchor now ?opts) = 0"
    by (simp add: anchor_def resolve_dtstart_def m DEFAULT_OPTIONS_def default_anchor_modulo)
  have k: "invalid_keys ?opts = []"
    by (simp add: invalid_keys_def keys_def defaultKeys_def)
  have f: "freq (resolved ?opts) = Some DAILY"
    by (simp add: resolved_freq m DEFAULT_OPTIONS_def)
  have s: "bysetpos (merged ?opts) = Null" by (simp add: m DEFAULT_OPTIONS_def)
  have fr: "ToNumber (freq (resolved ?opts)) = DAILY" by (simp add: f)
  have lt: "\<not> HOURLY \<le> DAILY" by (simp add: DAILY_def HOURLY_def)
  have hb: "byhour (merged ?opts) = Arr [9, 10]" "byminute (merged ?opts) = Arr [0, 30]"
    "bysecond (merged ?opts) = Arr [0]"
    by (simp_all add: m)
  have "timeset_of 0 (normalize_fields (anchor now ?opts) (validated now ?opts)) =
          Some [\<lparr>hour = 9, minute = 0, second = 0, millisecond = 0\<rparr>,
                      \<lparr>hour = 9, minute = 30, second = 0, millisecond = 0\<rparr>,
                      \<lparr>hour = 10, minute = 0, second = 0, millisecond = 0\<rparr>,
                      \<lparr>hour = 10, minute = 30, second = 0, millisecond = 0\<rparr>]"
    by (simp add: timeset_of_def fr lt byhour_normalize byminute_normalize bysecond_normalize
          hb list_of_def cross_product_def dateutil_sort_example)
  then show "\<exists>res'. parseOptions now ?opts =
           Inr (res',
                Some [\<lparr>hour = 9, minute = 0, second = 0, millisecond = 0\<rparr>,
                      \<lparr>hour = 9, minute = 30, second = 0, millisecond = 0\<rparr>,
                      \<lparr>hour = 10, minute = 0, second = 0, millisecond = 0\<rparr>,
                      \<lparr>hour = 10, minute = 30, second = 0, millisecond = 0\<rparr>])"
    by (simp add: parseOptions_result k f s a freq_ok_member frequency_member_def list_of_def)
qed

text \<open>
  An HOURLY rule returns no timeset; a DAILY rule with the hours 10 and 9 and a start
  instant with 123 milliseconds returns two sorted entries that carry 123.
\<close>

theorem timeset_construction_witness:
  "(\<exists>res. parseOptions 0 [K_freq (Some HOURLY)] = Inr (res, None)) \<and>
   (\<exists>res ts. parseOptions 0 [K_freq (Some DAILY), K_dtstart (Some 1700000000123),
                            K_byhour (Arr [10, 9])] = Inr (res, Some ts) \<and>
            length ts = 2 \<and> sorted (map time_key ts) \<and> (\<forall>t\<in>set ts. millisecond t = 123))"
proof -
  let ?o1 = "[K_freq (Some HOURLY)]"
  have k1: "invalid_keys ?o1 = []"
    by (simp add: invalid_keys_def keys_def defaultKeys_def)
  have m1: "merged ?o1 = DEFAULT_OPTIONS\<lparr>freq := Some HOURLY\<rparr>"
    by (simp add: merged_def merge_defaults_def)
  have f1: "freq (resolved ?o1) = Some HOURLY"
    by (simp add: resolved_freq m1 DEFAULT_OPTIONS_def)
  have s1: "bysetpos (merged ?o1) = Null" by (simp add: m1 DEFAULT_OPTIONS_def)
  obtain r1 t1 where p1: "parseOptions 0 ?o1 = Inr (r1, t1)" and q1: "freq r1 = Some HOURLY"
    by (simp add: parseOptions_result k1 f1 s1 freq_ok_member frequency_member_def list_of_def)
  have a: "\<exists>res. parseOptions 0 ?o1 = Inr (res, None)"
    using timeset_construction[of 0 ?o1 r1 t1] p1 q1 by auto
  let ?opts = "[K_freq (Some DAILY), K_dtstart (Some 1700000000123), K_byhour (Arr [10, 9])]"
  have m: "merged ?opts = DEFAULT_OPTIONS\<lparr>freq := Some DAILY, dtstart := Some 1700000000123,
             byhour := Arr [10, 9]\<rparr>"
    by (simp add: merged_def merge_defaults_def)
  have k: "invalid_keys ?opts = []"
    by (simp add: invalid_keys_def keys_def defaultKeys_def)
  have f: "freq (resolved ?opts) = Some DAILY"
    by (simp add: resolved_freq m DEFAULT_OPTIONS_def)
  have s: "bysetpos (merged ?opts) = Null" by (simp add: m DEFAULT_OPTIONS_def)
  have an: "anchor 0 ?opts = 1700000000123"
    by (simp add: anchor_def resolve_dtstart_def m)
  have mm: "millisecondModulo (anchor 0 ?opts) = 123"
    by (simp add: an millisecondModulo_def js_rem_def)
  have lts: "DAILY < MINUTELY" "DAILY < SECONDLY"
    by (simp_all add: DAILY_def MINUTELY_def SECONDLY_def)
  obtain r2 t2 where p2: "parseOptions 0 ?opts = Inr (r2, t2)" and q2: "freq r2 = Some DAILY"
    and l2: "byhour r2 = Arr [10, 9]" "byminute r2 = Arr [getUTCMinutes 1700000000123]"
      "bysecond r2 = Arr [getUTCSeconds 1700000000123]"
    by (simp add: parseOptions_result k f s an freq_ok_member frequency_member_def list_of_def
          byhour_normalize byminute_normalize bysecond_normalize m DEFAULT_OPTIONS_def
          lts)
  have b: "\<exists>res ts. parseOptions 0 ?opts = Inr (res, Some ts) \<and>
            length ts = 2 \<and> sorted (map time_key ts) \<and> (\<forall>t\<in>set ts. millisecond t = 123)"
    using timeset_construction[of 0 ?opts r2 t2] p2 q2 l2 mm by auto
  show ?thesis using a b by blast
qed

text \<open>
  C8, as stated, fails: a DAILY rule with an empty hour list succeeds and returns the
  empty list as its timeset, not \<^verbatim>\<open>null\<close>.
\<close>

theorem empty_timeset_produced:
  "parseOptions 0 [K_freq (Some DAILY), K_dtstart (Some 951782400000), K_byhour (Arr [])] =
     Inr (\<lparr>freq = Some DAILY, dtstart = Some 951782400000, interval = 1,
            wkst = Some (Code 0), count = None, until = None, tzid = None,
            bysetpos = Null, bymonth = Null, bymonthday = Arr [], bynmonthday = Some [],
            byyearday = Null, byweekno = Null, byweekday = BwNull, bynweekday = None,
            byhour = Arr [], byminute = Arr [0], bysecond = Arr [0], byeaster = None\<rparr>,
          Some [])"
  by code_simp

text \<open>
  C8, amended. A produced timeset is sorted ascending; it is empty exactly when the
  normalised hour, minute or second constraint is an empty list, so it is non-empty
  whenever none of the three constraints is supplied as an empty list.
\<close>

theorem produced_timeset_sorted:
  assumes "parseOptions now options = Inr (res, Some ts)"
  shows "sorted (map time_key ts) \<and>
         (ts = [] \<longleftrightarrow> byhour res = Arr [] \<or> byminute res = Arr [] \<or> bysecond res = Arr []) \<and>
         (byhour (merged options) \<noteq> Arr [] \<and> byminute (merged options) \<noteq> Arr [] \<and>
          bysecond (merged options) \<noteq> Arr [] \<longrightarrow> ts \<noteq> [])"
proof -
  from produced_timeset_shape[OF assms] obtain hs ms ss where
    l: "byhour res = Arr hs" "byminute res = Arr ms" "bysecond res = Arr ss"
    and t: "ts = dateutil_sort (cross_product (millisecondModulo (anchor now options)) hs ms ss)"
    by blast
  have s: "sorted (map time_key ts)" using t by (simp add: dateutil_sort_props)
  have e: "ts = [] \<longleftrightarrow> byhour res = Arr [] \<or> byminute res = Arr [] \<or> bysecond res = Arr []"
    using t l by (simp add: dateutil_sort_props cross_product_empty)
  have r: "res = normalize_fields (anchor now options) (validated now options)"
    by (rule coarse_result_lists(1)[OF assms])
  have n: "ts \<noteq> []"
    if "byhour (merged options) \<noteq> Arr [] \<and> byminute (merged options) \<noteq> Arr [] \<and>
          bysecond (merged options) \<noteq> Arr []"
    using that e r normalized_list_nonempty[of options "anchor now options" now] by blast
  show ?thesis using s e n by blast
qed

text \<open>
  A DAILY rule with the hours 10 and 9: the timeset is sorted and not empty.
\<close>

theorem produced_timeset_sorted_witness:
  "\<exists>res ts. parseOptions 0 [K_freq (Some DAILY), K_dtstart (Some 1700000000123),
                            K_byhour (Arr [10, 9])] = Inr (res, Some ts) \<and>
            sorted (map time_key ts) \<and> ts \<noteq> []"
proof -
  let ?opts = "[K_freq (Some DAILY), K_dtstart (Some 1700000000123), K_byhour (Arr [10, 9])]"
  have m: "merged ?opts = DEFAULT_OPTIONS\<lparr>freq := Some DAILY, dtstart := Some 1700000000123,
             byhour := Arr [10, 9]\<rparr>"
    by (simp add: merged_def merge_defaults_def)
  have k: "invalid_keys ?opts = []"
    by (simp add: invalid_keys_def keys_def defaultKeys_def)
  have f: "freq (resolved ?opts) = Some DAILY"
    by (simp add: resolved_freq m DEFAULT_OPTIONS_def)
  have s: "bysetpos (merged ?opts) = Null" by (simp add: m DEFAULT_OPTIONS_def)
  have fr: "ToNumber (freq (resolved ?opts)) = DAILY" by (simp add: f)
  have lt: "\<not> HOURLY \<le> DAILY" by (simp add: DAILY_def HOURLY_def)
  obtain res ts where p: "parseOptions 0 ?opts = Inr (res, Some ts)"
    by (simp add: parseOptions_result k f s freq_ok_member frequency_member_def list_of_def
          timeset_of_def fr lt)
  have h: "byhour (merged ?opts) \<noteq> Arr [] \<and> byminute (merged ?opts) \<noteq> Arr [] \<and>
          bysecond (merged ?opts) \<noteq> Arr []"
    by (simp add: m DEFAULT_OPTIONS_def)
  show ?thesis
    using produced_timeset_sorted[OF p] h p by blast
qed

subsection \<open>Month days\<close>

text \<open>
  C3. Whenever \<^verbatim>\<open>parseOptions\<close> returns, the buckets of the result are determined
  by the month-day constraint that reaches the normalisation: absent, both buckets are
  empty; a list, the positive bucket holds its elements above 0 and the negative
  bucket its elements below 0, each in the order of the list, and 0 is dropped; a
  negative scalar is the only element of the negative bucket and the positive bucket
  is empty; a scalar that is 0 or more is the only element of the positive bucket and
  the negative bucket is empty. A supplied constraint reaches the normalisation
  unchanged, and an absent one stays absent unless the implicit derivation supplies
  it (the derivation does not run, or the frequency is finer than MONTHLY).
\<close>

theorem monthday_buckets:
  assumes "parseOptions now options = Inr (res, timeset)"
  shows "(monthday_constraint now options = Null \<longrightarrow>
            bymonthday res = Arr [] \<and> bynmonthday res = Some []) \<and>
         (\<forall>vs. monthday_constraint now options = Arr vs \<longrightarrow>
            bymonthday res = Arr (filter (\<lambda>v. 0 < v) vs) \<and>
            bynmonthday res = Some (filter (\<lambda>v. v < 0) vs)) \<and>
         (\<forall>v. monthday_constraint now options = Num v \<and> v < 0 \<longrightarrow>
            bymonthday res = Arr [] \<and> bynmonthday res = Some [v]) \<and>
         (\<forall>v. monthday_constraint now options = Num v \<and> 0 \<le> v \<longrightarrow>
            bymonthday res = Arr [v] \<and> bynmonthday res = Some []) \<and>
         (bymonthday (merged options) \<noteq> Null \<longrightarrow>
            monthday_constraint now options = bymonthday (merged options)) \<and>
         (bymonthday (merged options) = Null \<and>
          (\<not> implicit_condition (merged options) \<or> finer_than_monthly (freq res)) \<longrightarrow>
            monthday_constraint now options = Null)"
proof -
  have r: "res = normalize_fields (anchor now options) (validated now options)"
    by (rule coarse_result_lists(1)[OF assms])
  have f: "freq (validated now options) = freq res" using r by simp
  have n: "monthday_constraint now options = Null"
    if "bymonthday (merged options) = Null"
       "\<not> implicit_condition (merged options) \<or> finer_than_monthly (freq res)"
  proof -
    have "bymonthday (implicit_stage (anchor now options) (validated now options)) =
            bymonthday (validated now options)"
      using that(2) f
      by (auto simp: implicit_stage_def implicit_condition_validated finer_than_monthly_def
            YEARLY_def MONTHLY_def WEEKLY_def DAILY_def HOURLY_def MINUTELY_def SECONDLY_def)
    then show ?thesis using that(1) by (simp add: monthday_constraint_def)
  qed
  have bm: "bymonthday res =
              (case monthday_constraint now options of
                 Null \<Rightarrow> Arr []
               | Num v \<Rightarrow> if v < 0 then Arr [] else Arr [v]
               | Arr vs \<Rightarrow> Arr (filter (\<lambda>v. 0 < v) vs))"
    and bn: "bynmonthday res =
              (case monthday_constraint now options of
                 Null \<Rightarrow> Some []
               | Num v \<Rightarrow> if v < 0 then Some [v] else Some []
               | Arr vs \<Rightarrow> Some (filter (\<lambda>v. v < 0) vs))"
    unfolding r monthday_constraint_def
    by (simp_all add: normalize_fields_monthday bymonthday_stage_buckets)
  have sup: "bymonthday (merged options) \<noteq> Null \<longrightarrow>
               monthday_constraint now options = bymonthday (merged options)"
    by (simp add: monthday_constraint_def implicit_stage_supplied)
  show ?thesis
    using bm bn sup n by auto
qed

text \<open>
  The month days 5, -5 and 0 give the positive bucket [5] and the negative bucket [-5].
\<close>

theorem monthday_buckets_witness:
  "\<exists>res timeset. parseOptions 0 [K_freq (Some DAILY), K_bymonthday (Arr [5, - 5, 0])] =
       Inr (res, timeset) \<and> bymonthday res = Arr [5] \<and> bynmonthday res = Some [- 5]"
proof -
  let ?opts = "[K_freq (Some DAILY), K_bymonthday (Arr [5, - 5, 0])]"
  have m: "merged ?opts = DEFAULT_OPTIONS\<lparr>freq := Some DAILY, bymonthday := Arr [5, - 5, 0]\<rparr>"
    by (simp add: merged_def merge_defaults_def)
  have k: "invalid_keys ?opts = []"
    by (simp add: invalid_keys_def keys_def defaultKeys_def)
  have f: "freq (resolved ?opts) = Some DAILY"
    by (simp add: resolved_freq m DEFAULT_OPTIONS_def)
  have s: "bysetpos (merged ?opts) = Null" by (simp add: m DEFAULT_OPTIONS_def)
  obtain res timeset where p: "parseOptions 0 ?opts = Inr (res, timeset)"
    by (simp add: parseOptions_result k f s freq_ok_member frequency_member_def list_of_def)
  have b: "bymonthday (merged ?opts) = Arr [5, - 5, 0]" by (simp add: m)
  show ?thesis
    using monthday_buckets[OF p] p b by auto
qed

subsection \<open>Weekdays\<close>

text \<open>
  C4. Whenever \<^verbatim>\<open>parseOptions\<close> returns: a single \<^verbatim>\<open>Weekday\<close> without ordinal,
  or any single \<^verbatim>\<open>Weekday\<close> when the frequency is WEEKLY or finer, becomes the plain
  list of its bare code with no ordinal bucket; a single \<^verbatim>\<open>Weekday\<close> with ordinal
  \<open>k\<close> under YEARLY or MONTHLY becomes the ordinal bucket with the one pair of its code
  and \<open>k\<close>, with no plain bucket; a bare code becomes the plain list of that code. For
  a list, every element is classified by the same rule, in order, bare codes always
  into the plain bucket, and each bucket is \<^verbatim>\<open>null\<close> when it ends up empty. Every
  token goes to exactly one bucket. A supplied weekday constraint reaches the
  classification unchanged.
\<close>

theorem weekday_classification:
  assumes "parseOptions now options = Inr (res, timeset)"
  shows "(\<forall>wd. weekday_constraint now options = BwOne (Wday wd) \<and>
               (\<not> has_ordinal wd \<or> finer_than_monthly (freq res)) \<longrightarrow>
            byweekday res = BwArr [Code (weekday wd)] \<and> bynweekday res = None) \<and>
         (\<forall>wd k. weekday_constraint now options = BwOne (Wday wd) \<and>
               n_of wd = Some k \<and> k \<noteq> 0 \<and>
               (freq res = Some YEARLY \<or> freq res = Some MONTHLY) \<longrightarrow>
            byweekday res = BwNull \<and> bynweekday res = Some [(weekday wd, k)]) \<and>
         (\<forall>c. weekday_constraint now options = BwOne (Code c) \<longrightarrow>
            byweekday res = BwArr [Code c] \<and> bynweekday res = None) \<and>
         (\<forall>ts. weekday_constraint now options = BwArr ts \<longrightarrow>
            byweekday res =
              (let p = map weekday_code (filter (to_plain (freq res)) ts)
               in if p = [] then BwNull else BwArr (map Code p)) \<and>
            bynweekday res =
              (let q = List.map_filter (ordinal_pair (freq res)) ts
               in if q = [] then None else Some q)) \<and>
         (\<forall>t. to_plain (freq res) t \<longleftrightarrow> ordinal_pair (freq res) t = None) \<and>
         (\<forall>wd. to_plain (freq res) (Wday wd) \<longleftrightarrow>
            \<not> has_ordinal wd \<or> finer_than_monthly (freq res)) \<and>
         (\<forall>wd k. n_of wd = Some k \<and> k \<noteq> 0 \<and>
                 (freq res = Some YEARLY \<or> freq res = Some MONTHLY) \<longrightarrow>
            ordinal_pair (freq res) (Wday wd) = Some (weekday wd, k)) \<and>
         (byweekday (merged options) \<noteq> BwNull \<longrightarrow>
            weekday_constraint now options = byweekday (merged options))"
proof -
  note r = coarse_result_lists[OF assms]
  let ?dt = "anchor now options"
  let ?st = "(validated now options)\<lparr>byweekday := weekday_constraint now options\<rparr>"
  have fm: "frequency_member (freq ?st)" using r(1) r(4) by simp
  have fr: "freq ?st = freq res" using r(1) by simp
  have bw: "byweekday res = byweekday (byweekday_stage ?st)"
    and bn: "bynweekday res = bynweekday (byweekday_stage ?st)"
    unfolding r(1) weekday_constraint_def by (simp_all add: normalize_fields_weekday)
  have c: "\<not> finer_than_monthly (freq res) \<longleftrightarrow> freq res = Some YEARLY \<or> freq res = Some MONTHLY"
    by (rule coarse_frequency_iff[OF r(4)])
  have 1: "byweekday res = BwArr [Code (weekday wd)] \<and> bynweekday res = None"
    if "weekday_constraint now options = BwOne (Wday wd)"
       "\<not> has_ordinal wd \<or> finer_than_monthly (freq res)" for wd
    using byweekday_stage_single(1)[OF fm, of wd] that bw bn fr by simp
  have 2: "byweekday res = BwNull \<and> bynweekday res = Some [(weekday wd, k)]"
    if "weekday_constraint now options = BwOne (Wday wd)" "n_of wd = Some k" "k \<noteq> 0"
       "freq res = Some YEARLY \<or> freq res = Some MONTHLY" for wd k
    using byweekday_stage_single(2)[OF fm, of wd k] that bw bn fr c by simp
  have 3: "byweekday res = BwArr [Code c] \<and> bynweekday res = None"
    if "weekday_constraint now options = BwOne (Code c)" for c
    using byweekday_stage_other(2)[of ?st c] that bw bn by simp
  have 4: "byweekday res =
              (let p = map weekday_code (filter (to_plain (freq res)) ts)
               in if p = [] then BwNull else BwArr (map Code p)) \<and>
            bynweekday res =
              (let q = List.map_filter (ordinal_pair (freq res)) ts
               in if q = [] then None else Some q)"
    if "weekday_constraint now options = BwArr ts" for ts
    using byweekday_stage_array[OF fm, of ts] that bw bn fr by simp
  have 5: "to_plain (freq res) t \<longleftrightarrow> ordinal_pair (freq res) t = None" for t
    by (cases t) (auto simp: has_ordinal_def split: option.splits)
  have 6: "to_plain (freq res) (Wday wd) \<longleftrightarrow>
            \<not> has_ordinal wd \<or> finer_than_monthly (freq res)" for wd
    by simp
  have 7: "ordinal_pair (freq res) (Wday wd) = Some (weekday wd, k)"
    if "n_of wd = Some k" "k \<noteq> 0" "freq res = Some YEARLY \<or> freq res = Some MONTHLY" for wd k
    using that c by auto
  have 8: "weekday_constraint now options = byweekday (merged options)"
    if "byweekday (merged options) \<noteq> BwNull"
    using that by (simp add: weekday_constraint_def implicit_stage_supplied)
  show ?thesis
    using 1 2 3 4 5 6 7 8 by blast
qed

text \<open>
  The second Tuesday: under MONTHLY the pair (1, 2) in the ordinal bucket, under WEEKLY
  the bare code 1 in the plain bucket.
\<close>

theorem weekday_classification_witness:
  "(\<exists>res timeset.
      parseOptions 0 [K_freq (Some MONTHLY), K_byweekday (BwOne (Wday (Weekday 1 (Some 2))))] =
        Inr (res, timeset) \<and>
      byweekday res = BwNull \<and> bynweekday res = Some [(1, 2)]) \<and>
   (\<exists>res timeset.
      parseOptions 0 [K_freq (Some WEEKLY), K_byweekday (BwOne (Wday (Weekday 1 (Some 2))))] =
        Inr (res, timeset) \<and>
      byweekday res = BwArr [Code 1] \<and> bynweekday res = None)"
proof -
  let ?o1 = "[K_freq (Some MONTHLY), K_byweekday (BwOne (Wday (Weekday 1 (Some 2))))]"
  let ?o2 = "[K_freq (Some WEEKLY), K_byweekday (BwOne (Wday (Weekday 1 (Some 2))))]"
  have k: "invalid_keys ?o1 = []" "invalid_keys ?o2 = []"
    by (simp_all add: invalid_keys_def keys_def defaultKeys_def)
  have m1: "merged ?o1 = DEFAULT_OPTIONS\<lparr>freq := Some MONTHLY,
              byweekday := BwOne (Wday (Weekday 1 (Some 2)))\<rparr>"
    and m2: "merged ?o2 = DEFAULT_OPTIONS\<lparr>freq := Some WEEKLY,
              byweekday := BwOne (Wday (Weekday 1 (Some 2)))\<rparr>"
    by (simp_all add: merged_def merge_defaults_def)
  have f: "freq (resolved ?o1) = Some MONTHLY" "freq (resolved ?o2) = Some WEEKLY"
    by (simp_all add: resolved_freq m1 m2 DEFAULT_OPTIONS_def)
  have s: "bysetpos (merged ?o1) = Null" "bysetpos (merged ?o2) = Null"
    by (simp_all add: m1 m2 DEFAULT_OPTIONS_def)
  obtain r1 t1 where p1: "parseOptions 0 ?o1 = Inr (r1, t1)" and q1: "freq r1 = Some MONTHLY"
    by (simp add: parseOptions_result k f s freq_ok_member frequency_member_def list_of_def)
  obtain r2 t2 where p2: "parseOptions 0 ?o2 = Inr (r2, t2)" and q2: "freq r2 = Some WEEKLY"
    by (simp add: parseOptions_result k f s freq_ok_member frequency_member_def list_of_def)
  have b1: "byweekday (merged ?o1) = BwOne (Wday (Weekday 1 (Some 2)))"
    and b2: "byweekday (merged ?o2) = BwOne (Wday (Weekday 1 (Some 2)))"
    by (simp_all add: m1 m2)
  have a: "byweekday r1 = BwNull \<and> bynweekday r1 = Some [(1, 2)]"
    using weekday_classification[OF p1] q1 b1 by force
  have b: "byweekday r2 = BwArr [Code 1] \<and> bynweekday r2 = None"
    using weekday_classification[OF p2] q2 b2 by (force simp: finer_than_monthly_def)
  show ?thesis using a b p1 p2 by blast
qed

subsection \<open>The implicit constraint\<close>

text \<open>
  C1, as stated, fails on empty lists. A YEARLY rule whose weekday constraint is the
  empty list has no constraint that is non-empty, yet the derivation does not run: the
  month stays \<^verbatim>\<open>null\<close> and the month-day bucket empty. A YEARLY rule whose year-day
  constraint is the empty list has a constraint that is present, yet the derivation
  runs: month and month day are those of the start instant, 29 February 2000.
\<close>

theorem empty_list_presence:
  "parseOptions 0 [K_freq (Some YEARLY), K_dtstart (Some 951782400000),
                   K_byweekday (BwArr [])] =
     Inr (\<lparr>freq = Some YEARLY, dtstart = Some 951782400000, interval = 1,
            wkst = Some (Code 0), count = None, until = None, tzid = None,
            bysetpos = Null, bymonth = Null, bymonthday = Arr [], bynmonthday = Some [],
            byyearday = Null, byweekno = Null, byweekday = BwNull, bynweekday = None,
            byhour = Arr [0], byminute = Arr [0], bysecond = Arr [0], byeaster = None\<rparr>,
          Some [\<lparr>hour = 0, minute = 0, second = 0, millisecond = 0\<rparr>]) \<and>
   parseOptions 0 [K_freq (Some YEARLY), K_dtstart (Some 951782400000),
                   K_byyearday (Arr [])] =
     Inr (\<lparr>freq = Some YEARLY, dtstart = Some 951782400000, interval = 1,
            wkst = Some (Code 0), count = None, until = None, tzid = None,
            bysetpos = Null, bymonth = Arr [2], bymonthday = Arr [29],
            bynmonthday = Some [], byyearday = Arr [], byweekno = Null,
            byweekday = BwNull, bynweekday = None,
            byhour = Arr [0], byminute = Arr [0], bysecond = Arr [0], byeaster = None\<rparr>,
          Some [\<lparr>hour = 0, minute = 0, second = 0, millisecond = 0\<rparr>])"
  by code_simp

text \<open>
  C1, amended. The condition of line 64 holds when the week-number, month-day, weekday
  and Easter-offset constraints are \<^verbatim>\<open>null\<close> and the year-day constraint is
  \<^verbatim>\<open>null\<close> or an empty list. It fails, and the options are left as they are, when
  the week-number, year-day or month-day constraint is a number other than 0 or a
  non-empty list, when the weekday constraint is not \<^verbatim>\<open>null\<close> (an empty list
  included), or when the Easter offset is not \<^verbatim>\<open>null\<close>. When the condition holds:
  under YEARLY the month-day constraint becomes the day of the month of the start
  instant, and the month constraint becomes its month when it was \<^verbatim>\<open>null\<close> and is
  kept when it was a number other than 0 or a non-empty list; under MONTHLY the
  month-day constraint becomes the day of the month; under WEEKLY the weekday
  constraint becomes the one-element list of the weekday code of the start instant;
  under DAILY, HOURLY, MINUTELY and SECONDLY nothing changes. The derivation is the
  first of the field stages applied to the options of a returned result, its
  condition is that of the merged options, and in the result: under YEARLY the month
  list (when no month was supplied) is the month of the start instant and the positive
  month-day bucket its day, under MONTHLY the positive month-day bucket is its day,
  and under WEEKLY the plain weekday list is its weekday code with no ordinal bucket.
\<close>

theorem implicit_derivation:
  "(byweekno opts = Null \<and> bymonthday opts = Null \<and>
    (byyearday opts = Null \<or> byyearday opts = Arr []) \<and>
    byweekday opts = BwNull \<and> byeaster opts = None \<longrightarrow> implicit_condition opts) \<and>
   (constraint_given (byweekno opts) \<or> constraint_given (byyearday opts) \<or>
    constraint_given (bymonthday opts) \<or> byweekday opts \<noteq> BwNull \<or>
    byeaster opts \<noteq> None \<longrightarrow>
      \<not> implicit_condition opts \<and> implicit_stage dt opts = opts) \<and>
   (implicit_condition opts \<longrightarrow>
      (freq opts = Some YEARLY \<and> bymonth opts = Null \<longrightarrow>
         implicit_stage dt opts =
           opts\<lparr>bymonth := Num (getUTCMonth dt + 1), bymonthday := Num (getUTCDate dt)\<rparr>) \<and>
      (freq opts = Some YEARLY \<and> constraint_given (bymonth opts) \<longrightarrow>
         implicit_stage dt opts = opts\<lparr>bymonthday := Num (getUTCDate dt)\<rparr>) \<and>
      (freq opts = Some MONTHLY \<longrightarrow>
         implicit_stage dt opts = opts\<lparr>bymonthday := Num (getUTCDate dt)\<rparr>) \<and>
      (freq opts = Some WEEKLY \<longrightarrow>
         implicit_stage dt opts = opts\<lparr>byweekday := BwArr [Code (getWeekday dt)]\<rparr>) \<and>
      (freq opts = Some DAILY \<or> freq opts = Some HOURLY \<or> freq opts = Some MINUTELY \<or>
       freq opts = Some SECONDLY \<longrightarrow> implicit_stage dt opts = opts)) \<and>
   (parseOptions now options = Inr (res, timeset) \<longrightarrow>
      res = normalize_fields (anchor now options) (validated now options) \<and>
      normalize_fields (anchor now options) (validated now options) =
        bysecond_stage (anchor now options) (byminute_stage (anchor now options)
          (byhour_stage (anchor now options) (byweekday_stage (byweekno_stage
            (bymonthday_stage (byyearday_stage (bymonth_stage
              (implicit_stage (anchor now options) (validated now options))))))))) \<and>
      implicit_condition (validated now options) = implicit_condition (merged options) \<and>
      (implicit_condition (merged options) \<longrightarrow>
         (freq res = Some YEARLY \<longrightarrow>
            (bymonth (merged options) = Null \<longrightarrow>
               bymonth res = Arr [getUTCMonth (anchor now options) + 1]) \<and>
            bymonthday res = Arr [getUTCDate (anchor now options)] \<and>
            bynmonthday res = Some []) \<and>
         (freq res = Some MONTHLY \<longrightarrow>
            bymonthday res = Arr [getUTCDate (anchor now options)] \<and>
            bynmonthday res = Some []) \<and>
         (freq res = Some WEEKLY \<longrightarrow>
            byweekday res = BwArr [Code (getWeekday (anchor now options))] \<and>
            bynweekday res = None)))"
proof (intro conjI impI)
  assume "byweekno opts = Null \<and> bymonthday opts = Null \<and>
    (byyearday opts = Null \<or> byyearday opts = Arr []) \<and>
    byweekday opts = BwNull \<and> byeaster opts = None"
  then show "implicit_condition opts" by (simp add: implicit_condition_absent)
next
  assume g: "constraint_given (byweekno opts) \<or> constraint_given (byyearday opts) \<or>
    constraint_given (bymonthday opts) \<or> byweekday opts \<noteq> BwNull \<or> byeaster opts \<noteq> None"
  show n: "\<not> implicit_condition opts" by (rule implicit_condition_given[OF g])
  show "implicit_stage dt opts = opts" using n by (simp add: implicit_stage_def)
next
  assume c: "implicit_condition opts"
  note e = implicit_stage_effects[OF c, of dt]
  {
    assume "freq opts = Some YEARLY \<and> bymonth opts = Null"
    then show "implicit_stage dt opts =
           opts\<lparr>bymonth := Num (getUTCMonth dt + 1), bymonthday := Num (getUTCDate dt)\<rparr>"
      using e(1) by simp
  }
  {
    assume a: "freq opts = Some YEARLY \<and> constraint_given (bymonth opts)"
    then have "Boolean (bymonth opts)"
      by (cases "bymonth opts") (simp_all add: constraint_given_def)
    then show "implicit_stage dt opts = opts\<lparr>bymonthday := Num (getUTCDate dt)\<rparr>"
      using e(2) a by simp
  }
  {
    assume "freq opts = Some MONTHLY"
    then show "implicit_stage dt opts = opts\<lparr>bymonthday := Num (getUTCDate dt)\<rparr>"
      by (rule e(3))
  }
  {
    assume "freq opts = Some WEEKLY"
    then show "implicit_stage dt opts = opts\<lparr>byweekday := BwArr [Code (getWeekday dt)]\<rparr>"
      by (rule e(4))
  }
  {
    assume "freq opts = Some DAILY \<or> freq opts = Some HOURLY \<or> freq opts = Some MINUTELY \<or>
       freq opts = Some SECONDLY"
    then show "implicit_stage dt opts = opts" by (rule e(5))
  }
next
  show "normalize_fields (anchor now options) (validated now options) =
        bysecond_stage (anchor now options) (byminute_stage (anchor now options)
          (byhour_stage (anchor now options) (byweekday_stage (byweekno_stage
            (bymonthday_stage (byyearday_stage (bymonth_stage
              (implicit_stage (anchor now options) (validated now options)))))))))"
    by (simp add: normalize_fields_def)
  show "implicit_condition (validated now options) = implicit_condition (merged options)"
    by (rule implicit_condition_validated)
next
  assume p: "parseOptions now options = Inr (res, timeset)"
  note r = coarse_result_lists[OF p]
  show "res = normalize_fields (anchor now options) (validated now options)" by (rule r(1))
  assume "implicit_condition (merged options)"
  then have c: "implicit_condition (validated now options)"
    by (simp add: implicit_condition_validated)
  note e = implicit_stage_effects[OF c, of "anchor now options"]
  have f: "freq (validated now options) = freq res" using r(1) by simp
  have d: "\<not> getUTCDate (anchor now options) < 0"
    using getUTCDate_pos[of "anchor now options"] by simp
  {
    assume y: "freq res = Some YEARLY"
    have md: "bymonthday (implicit_stage (anchor now options) (validated now options)) =
                Num (getUTCDate (anchor now options))"
      unfolding implicit_stage_def using c y f by (simp add: Let_def)
    show "bymonthday res = Arr [getUTCDate (anchor now options)]"
      and "bynmonthday res = Some []"
      unfolding r(1) using md d
      by (simp_all add: normalize_fields_monthday bymonthday_stage_buckets)
    assume "bymonth (merged options) = Null"
    then have "bymonth (validated now options) = Null" by simp
    from e(1)[OF _ this] y f
    show "bymonth res = Arr [getUTCMonth (anchor now options) + 1]"
      unfolding r(1) by (simp add: normalize_fields_month promote_def)
  }
  {
    assume "freq res = Some MONTHLY"
    with e(3) f have md: "bymonthday (implicit_stage (anchor now options) (validated now options)) =
                Num (getUTCDate (anchor now options))" by simp
    show "bymonthday res = Arr [getUTCDate (anchor now options)]"
      and "bynmonthday res = Some []"
      unfolding r(1) using md d
      by (simp_all add: normalize_fields_monthday bymonthday_stage_buckets)
  }
  {
    assume "freq res = Some WEEKLY"
    with e(4) f have wd: "byweekday (implicit_stage (anchor now options) (validated now options)) =
                BwArr [Code (getWeekday (anchor now options))]" by simp
    show "byweekday res = BwArr [Code (getWeekday (anchor now options))]"
      and "bynweekday res = None"
      unfolding r(1) using wd
      by (simp_all add: normalize_fields_weekday byweekday_stage_def)
  }
qed

text \<open>
  A WEEKLY and a YEARLY rule with the start instant 29 February 2000, a Tuesday, and
  no other constraint.
\<close>

theorem implicit_derivation_witness:
  "(\<exists>res timeset.
      parseOptions 0 [K_freq (Some WEEKLY), K_dtstart (Some 951782400000)] = Inr (res, timeset) \<and>
      byweekday res = BwArr [Code 1] \<and> bynweekday res = None) \<and>
   (\<exists>res timeset.
      parseOptions 0 [K_freq (Some YEARLY), K_dtstart (Some 951782400000)] = Inr (res, timeset) \<and>
      bymonth res = Arr [2] \<and> bymonthday res = Arr [29] \<and> bynmonthday res = Some [])"
proof -
  let ?o1 = "[K_freq (Some WEEKLY), K_dtstart (Some 951782400000)]"
  let ?o2 = "[K_freq (Some YEARLY), K_dtstart (Some 951782400000)]"
  have k: "invalid_keys ?o1 = []" "invalid_keys ?o2 = []"
    by (simp_all add: invalid_keys_def keys_def defaultKeys_def)
  have m1: "merged ?o1 = DEFAULT_OPTIONS\<lparr>freq := Some WEEKLY, dtstart := Some 951782400000\<rparr>"
    and m2: "merged ?o2 = DEFAULT_OPTIONS\<lparr>freq := Some YEARLY, dtstart := Some 951782400000\<rparr>"
    by (simp_all add: merged_def merge_defaults_def)
  have f: "freq (resolved ?o1) = Some WEEKLY" "freq (resolved ?o2) = Some YEARLY"
    by (simp_all add: resolved_freq m1 m2 DEFAULT_OPTIONS_def)
  have s: "bysetpos (merged ?o1) = Null" "bysetpos (merged ?o2) = Null"
    by (simp_all add: m1 m2 DEFAULT_OPTIONS_def)
  have a: "anchor 0 ?o1 = 951782400000" "anchor 0 ?o2 = 951782400000"
    by (simp_all add: anchor_def resolve_dtstart_def m1 m2)
  obtain r1 t1 where p1: "parseOptions 0 ?o1 = Inr (r1, t1)" and q1: "freq r1 = Some WEEKLY"
    by (simp add: parseOptions_result k f s freq_ok_member frequency_member_def list_of_def)
  obtain r2 t2 where p2: "parseOptions 0 ?o2 = Inr (r2, t2)" and q2: "freq r2 = Some YEARLY"
    by (simp add: parseOptions_result k f s freq_ok_member frequency_member_def list_of_def)
  have absent1: "byweekno (merged ?o1) = Null \<and> bymonthday (merged ?o1) = Null \<and>
      (byyearday (merged ?o1) = Null \<or> byyearday (merged ?o1) = Arr []) \<and>
      byweekday (merged ?o1) = BwNull \<and> byeaster (merged ?o1) = None"
    by (simp add: m1 DEFAULT_OPTIONS_def)
  have absent2: "byweekno (merged ?o2) = Null \<and> bymonthday (merged ?o2) = Null \<and>
      (byyearday (merged ?o2) = Null \<or> byyearday (merged ?o2) = Arr []) \<and>
      byweekday (merged ?o2) = BwNull \<and> byeaster (merged ?o2) = None"
    and bm: "bymonth (merged ?o2) = Null"
    by (simp_all add: m2 DEFAULT_OPTIONS_def)
  have cal: "getWeekday 951782400000 = 1" "getUTCMonth 951782400000 + 1 = 2"
    "getUTCDate 951782400000 = 29"
    by code_simp+
  note T1 = implicit_derivation[of "merged ?o1" 0 0 ?o1 r1 t1]
  have c1: "implicit_condition (merged ?o1)" by (rule mp[OF conjunct1[OF T1] absent1])
  note E1 = mp[OF conjunct2[OF conjunct2[OF conjunct2[OF T1]]] p1]
  note F1 = mp[OF conjunct2[OF conjunct2[OF conjunct2[OF E1]]] c1]
  have w: "byweekday r1 = BwArr [Code 1] \<and> bynweekday r1 = None"
    using mp[OF conjunct2[OF conjunct2[OF F1]] q1] a cal by simp
  note T2 = implicit_derivation[of "merged ?o2" 0 0 ?o2 r2 t2]
  have c2: "implicit_condition (merged ?o2)" by (rule mp[OF conjunct1[OF T2] absent2])
  note E2 = mp[OF conjunct2[OF conjunct2[OF conjunct2[OF T2]]] p2]
  note F2 = mp[OF conjunct2[OF conjunct2[OF conjunct2[OF E2]]] c2]
  have y: "bymonth r2 = Arr [2] \<and> bymonthday r2 = Arr [29] \<and> bynmonthday r2 = Some []"
    using mp[OF conjunct1[OF F2] q2] bm a cal by simp
  show ?thesis using w y p1 p2 by blast
qed

end
